theory Spec2Isabelle
  imports Main "HOL-Library.Word"
begin

unbundle bit_operations_syntax

section \<open>Bytes and return codes\<close>

text \<open>
  A \<open>std::string\<close> of the source is a sequence of bytes. The return codes of
  \<open>return_codes.h\<close> are pairwise distinct integers; only their identity matters here.
\<close>

type_synonym byte = "8 word"
type_synonym bytes = "byte list"

datatype return_code =
    kSuccess
  | kGeneralError
  | kFailedToFindChunk
  | kInvalidPublicKey
  | kNotOwner
  | kKeyNotUnique
  | kInvalidSignedData
  | kSignatureVerificationFailure
  | kParseFailure
  | kInvalidModify
  | kAppendDisallowed

section \<open>Chunk actions: the appendable-by-all rules\<close>

subsection \<open>Protocol-buffer messages\<close>

record SignedData =
  data :: bytes
  signature :: bytes

record AppendableByAll =
  identity_key :: SignedData
  allow_others_to_append :: SignedData
  appendices :: "SignedData list"

datatype ModifyAppendableByAll =
  ModifyAppendableByAll (modify_allow_others_to_append: SignedData)
                        (modify_identity_key: SignedData)

subsection \<open>External collaborators\<close>

text \<open>
  The asymmetric-crypto primitives and the protocol-buffer codecs are not part of the
  sources; the rules take them as parameters. \<open>'k\<close> is \<open>asymm::PublicKey\<close>.
\<close>

record 'k crypto_codec =
  ValidateKey :: "'k \<Rightarrow> bool"
  CheckSignature :: "bytes \<Rightarrow> bytes \<Rightarrow> 'k \<Rightarrow> return_code"
  ParseAppendableByAll :: "bytes \<Rightarrow> AppendableByAll option"
  ParseModifyAppendableByAll :: "bytes \<Rightarrow> ModifyAppendableByAll option"
  ParseSignedData :: "bytes \<Rightarrow> SignedData option"
  SerializeAppendableByAll :: "AppendableByAll \<Rightarrow> bytes"
  SerializeSignedData :: "SignedData \<Rightarrow> bytes"

text \<open>
  Modelled from the spec: the chunk store (\<open>chunk_store.h\<close> is not in the sources), a
  key to bytes store. \<open>Get\<close> yields the stored body, the empty string for a missing
  name; \<open>Has\<close> tells whether the name is present. Both are written in state-passing
  style, returning the store they leave behind, so that the handlers below thread the store
  through every call they make.
\<close>

type_synonym ChunkStore = "bytes \<rightharpoonup> bytes"

definition ChunkStore_Get :: "bytes \<Rightarrow> ChunkStore \<Rightarrow> bytes \<times> ChunkStore" where
  "ChunkStore_Get name chunk_store =
     (case chunk_store name of None \<Rightarrow> ([], chunk_store) | Some content \<Rightarrow> (content, chunk_store))"

definition ChunkStore_Has :: "bytes \<Rightarrow> ChunkStore \<Rightarrow> bool \<times> ChunkStore" where
  "ChunkStore_Has name chunk_store =
     (case chunk_store name of None \<Rightarrow> (False, chunk_store) | Some content \<Rightarrow> (True, chunk_store))"

text \<open>
  Modelled from the spec: the tag \<open>kAppendableByAll\<close> (\<open>chunk_types.h\<close> is not in
  the sources) is the byte 1, the flag value that end-to-end scenarios 1 to 3 sign to allow
  and 0 to forbid appends.
\<close>

definition kAppendableByAll :: byte where
  "kAppendableByAll = 1"

text \<open>\<open>s.c_str()[0]\<close>: the first byte, the terminating NUL for the empty string.\<close>

definition c_str_0 :: "bytes \<Rightarrow> byte" where
  "c_str_0 s = (case s of [] \<Rightarrow> 0 | b # rest \<Rightarrow> b)"

text \<open>
  \<open>appendability == kAppendableByAll\<close> compares a \<open>char\<close> with the tag after
  integer promotion; \<open>char\<close> is read as signed here, the tag as unsigned.
\<close>

definition char_equals_tag :: "byte \<Rightarrow> byte \<Rightarrow> bool" where
  "char_equals_tag c tag = (sint c = uint tag)"

subsection \<open>The handlers\<close>

text \<open>
  Every handler returns its code, the contents of its output parameter where it has one
  (cleared on entry), and the store.
\<close>

definition ProcessGet ::
  "'k crypto_codec \<Rightarrow> bytes \<Rightarrow> bytes \<Rightarrow> 'k \<Rightarrow> ChunkStore \<Rightarrow> return_code \<times> bytes \<times> ChunkStore" where
  "ProcessGet env name version public_key chunk_store =
     (let (all_existing_content, chunk_store) = ChunkStore_Get name chunk_store in
      if all_existing_content = [] then (kFailedToFindChunk, [], chunk_store)
      else case ParseAppendableByAll env all_existing_content of
        None \<Rightarrow> (kGeneralError, [], chunk_store)
      | Some existing_chunk \<Rightarrow>
          if \<not> ValidateKey env public_key then (kInvalidPublicKey, [], chunk_store)
          else if CheckSignature env (data (allow_others_to_append existing_chunk))
                    (signature (allow_others_to_append existing_chunk)) public_key = kSuccess
          then (kSuccess,
                SerializeAppendableByAll env (existing_chunk\<lparr>appendices := []\<rparr>),
                chunk_store)
          else (kNotOwner, SerializeSignedData env (identity_key existing_chunk), chunk_store))"

definition ProcessStore ::
  "'k crypto_codec \<Rightarrow> bytes \<Rightarrow> bytes \<Rightarrow> 'k \<Rightarrow> ChunkStore \<Rightarrow> return_code \<times> ChunkStore" where
  "ProcessStore env name content public_key chunk_store =
     (let (has, chunk_store) = ChunkStore_Has name chunk_store in
      if has then (kKeyNotUnique, chunk_store)
      else case ParseAppendableByAll env content of
        None \<Rightarrow> (kInvalidSignedData, chunk_store)
      | Some chunk \<Rightarrow>
          if \<not> ValidateKey env public_key then (kInvalidPublicKey, chunk_store)
          else if CheckSignature env (data (allow_others_to_append chunk))
                    (signature (allow_others_to_append chunk)) public_key \<noteq> kSuccess
          then (kSignatureVerificationFailure, chunk_store)
          else (kSuccess, chunk_store))"

definition ProcessDelete ::
  "'k crypto_codec \<Rightarrow> bytes \<Rightarrow> bytes \<Rightarrow> bytes \<Rightarrow> 'k \<Rightarrow> ChunkStore \<Rightarrow> return_code \<times> ChunkStore" where
  "ProcessDelete env name version ownership_proof public_key chunk_store =
     (let (existing_content, chunk_store) = ChunkStore_Get name chunk_store in
      if existing_content = [] then (kSuccess, chunk_store)
      else case ParseAppendableByAll env existing_content of
        None \<Rightarrow> (kGeneralError, chunk_store)
      | Some existing_chunk \<Rightarrow>
          if \<not> ValidateKey env public_key then (kInvalidPublicKey, chunk_store)
          else if CheckSignature env (data (allow_others_to_append existing_chunk))
                    (signature (allow_others_to_append existing_chunk)) public_key \<noteq> kSuccess
          then (kSignatureVerificationFailure, chunk_store)
          else (case ParseSignedData env ownership_proof of
            None \<Rightarrow> (kNotOwner, chunk_store)
          | Some deletion_token \<Rightarrow>
              if CheckSignature env (data deletion_token) (signature deletion_token) public_key
                   \<noteq> kSuccess
              then (kNotOwner, chunk_store)
              else (kSuccess, chunk_store)))"

text \<open>The owner's branch of \<open>ProcessModify\<close>, on the parsed existing chunk.\<close>

definition ModifyAsOwner ::
  "'k crypto_codec \<Rightarrow> bytes \<Rightarrow> 'k \<Rightarrow> AppendableByAll \<Rightarrow> return_code \<times> bytes" where
  "ModifyAsOwner env content public_key existing_chunk =
     (case ParseModifyAppendableByAll env content of
        None \<Rightarrow> (kParseFailure, [])
      | Some chunk \<Rightarrow>
          let allow_others_to_append_empty = (data (modify_allow_others_to_append chunk) = []);
              identity_key_empty = (data (modify_identity_key chunk) = [])
          in
          if allow_others_to_append_empty \<and> identity_key_empty then (kInvalidModify, [])
          else if (\<not> allow_others_to_append_empty) \<and> (\<not> identity_key_empty)
          then (kInvalidModify, [])
          else if \<not> allow_others_to_append_empty then
            if CheckSignature env (data (modify_allow_others_to_append chunk))
                 (signature (modify_allow_others_to_append chunk)) public_key \<noteq> kSuccess
            then (kSignatureVerificationFailure, [])
            else if data (modify_allow_others_to_append chunk)
                      = data (allow_others_to_append existing_chunk)
            then (kSuccess, SerializeAppendableByAll env (existing_chunk\<lparr>appendices := []\<rparr>))
            else (kSuccess,
                  SerializeAppendableByAll env
                    (existing_chunk\<lparr>allow_others_to_append := modify_allow_others_to_append chunk\<rparr>))
          else
            if CheckSignature env (data (modify_identity_key chunk))
                 (signature (modify_identity_key chunk)) public_key \<noteq> kSuccess
            then (kSignatureVerificationFailure, [])
            else if data (modify_identity_key chunk) = data (identity_key existing_chunk)
            then (kSuccess, SerializeAppendableByAll env (existing_chunk\<lparr>appendices := []\<rparr>))
            else (kSuccess,
                  SerializeAppendableByAll env
                    (existing_chunk\<lparr>identity_key := modify_identity_key chunk\<rparr>)))"

text \<open>The branch of \<open>ProcessModify\<close> for a caller who is not the owner.\<close>

definition ModifyAsOther ::
  "'k crypto_codec \<Rightarrow> bytes \<Rightarrow> 'k \<Rightarrow> AppendableByAll \<Rightarrow> return_code \<times> bytes" where
  "ModifyAsOther env content public_key existing_chunk =
     (let appendability = c_str_0 (data (allow_others_to_append existing_chunk)) in
      if char_equals_tag appendability kAppendableByAll then
        case ParseSignedData env content of
          None \<Rightarrow> (kInvalidSignedData, [])
        | Some appendix \<Rightarrow>
            if CheckSignature env (data appendix) (signature appendix) public_key \<noteq> kSuccess
            then (kSignatureVerificationFailure, [])
            else (kSuccess,
                  SerializeAppendableByAll env
                    (existing_chunk\<lparr>appendices := appendices existing_chunk @ [appendix]\<rparr>))
      else (kAppendDisallowed, []))"

definition ProcessModify ::
  "'k crypto_codec \<Rightarrow> bytes \<Rightarrow> bytes \<Rightarrow> bytes \<Rightarrow> 'k \<Rightarrow> ChunkStore
     \<Rightarrow> return_code \<times> bytes \<times> ChunkStore" where
  "ProcessModify env name content version public_key chunk_store =
     (let (existing_content, chunk_store) = ChunkStore_Get name chunk_store in
      if existing_content = [] then (kFailedToFindChunk, [], chunk_store)
      else case ParseAppendableByAll env existing_content of
        None \<Rightarrow> (kGeneralError, [], chunk_store)
      | Some existing_chunk \<Rightarrow>
          if \<not> ValidateKey env public_key then (kInvalidPublicKey, [], chunk_store)
          else
            let is_owner = (CheckSignature env (data (allow_others_to_append existing_chunk))
                              (signature (allow_others_to_append existing_chunk)) public_key
                            = kSuccess);
                (code, new_content) =
                   (if is_owner then ModifyAsOwner env content public_key existing_chunk
                    else ModifyAsOther env content public_key existing_chunk)
            in (code, new_content, chunk_store))"

definition ProcessHas ::
  "'k crypto_codec \<Rightarrow> bytes \<Rightarrow> bytes \<Rightarrow> 'k \<Rightarrow> ChunkStore \<Rightarrow> return_code \<times> ChunkStore" where
  "ProcessHas env name version public_key chunk_store =
     (let (has, chunk_store) = ChunkStore_Has name chunk_store in
      if \<not> has then (kFailedToFindChunk, chunk_store) else (kSuccess, chunk_store))"

text \<open>
  A stored appendable-by-all chunk: the store holds a non-empty body under the name, and the
  body parses to the chunk.
\<close>

definition stored_chunk ::
  "'k crypto_codec \<Rightarrow> ChunkStore \<Rightarrow> bytes \<Rightarrow> AppendableByAll \<Rightarrow> bool" where
  "stored_chunk env chunk_store name C =
     (case chunk_store name of
        None \<Rightarrow> False
      | Some content \<Rightarrow> content \<noteq> [] \<and> ParseAppendableByAll env content = Some C)"

definition is_owner_of :: "'k crypto_codec \<Rightarrow> 'k \<Rightarrow> AppendableByAll \<Rightarrow> bool" where
  "is_owner_of env K C =
     (CheckSignature env (data (allow_others_to_append C))
        (signature (allow_others_to_append C)) K = kSuccess)"


text \<open>
  A deletion token that does not prove ownership under \<open>K\<close>: it does not parse as a
  \<open>SignedData\<close>, or its signature does not verify.
\<close>

definition malformed_proof :: "'k crypto_codec \<Rightarrow> 'k \<Rightarrow> bytes \<Rightarrow> bool" where
  "malformed_proof env K ownership_proof =
     (case ParseSignedData env ownership_proof of
        None \<Rightarrow> True
      | Some deletion_token \<Rightarrow>
          CheckSignature env (data deletion_token) (signature deletion_token) K \<noteq> kSuccess)"

subsection \<open>A concrete codec and store\<close>

text \<open>
  A small instance of the collaborators: a key is a number, valid when positive; a
  signature verifies when it is the one byte of the key; a chunk body is two bytes, the
  identity and the flag, signed by key 7 and carrying one appendix.
\<close>

definition example_codec :: "nat crypto_codec" where
  "example_codec =
     \<lparr> ValidateKey = (\<lambda>k. 0 < k),
       CheckSignature = (\<lambda>d s k. if s = [of_nat k] then kSuccess else kGeneralError),
       ParseAppendableByAll =
         (\<lambda>b. case b of
                 [i, a] \<Rightarrow> Some \<lparr>identity_key = \<lparr>data = [i], signature = [7]\<rparr>,
                                  allow_others_to_append = \<lparr>data = [a], signature = [7]\<rparr>,
                                  appendices = [\<lparr>data = [5], signature = [9]\<rparr>]\<rparr>
               | _ \<Rightarrow> None),
       ParseModifyAppendableByAll =
         (\<lambda>b. case b of
                 [s, a, i] \<Rightarrow> Some (ModifyAppendableByAll
                                      \<lparr>data = (if a = 0 then [] else [a]), signature = [s]\<rparr>
                                      \<lparr>data = (if i = 0 then [] else [i]), signature = [s]\<rparr>)
               | _ \<Rightarrow> None),
       ParseSignedData =
         (\<lambda>b. case b of s # d \<Rightarrow> Some \<lparr>data = d, signature = [s]\<rparr> | [] \<Rightarrow> None),
       SerializeAppendableByAll =
         (\<lambda>c. data (identity_key c) @ data (allow_others_to_append c)
               @ concat (map (\<lambda>x. signature x @ data x) (appendices c))),
       SerializeSignedData = (\<lambda>x. signature x @ data x) \<rparr>"

definition example_chunk :: "byte \<Rightarrow> AppendableByAll" where
  "example_chunk flag =
     \<lparr>identity_key = \<lparr>data = [3], signature = [7]\<rparr>,
      allow_others_to_append = \<lparr>data = [flag], signature = [7]\<rparr>,
      appendices = [\<lparr>data = [5], signature = [9]\<rparr>]\<rparr>"

definition example_store :: ChunkStore where
  "example_store = [[42] \<mapsto> [3, 1], [43] \<mapsto> [3, 0]]"

section \<open>The framed TCP connection\<close>

text \<open>
  \<open>DataSize\<close> is a four-byte integer (the constructor asserts it); its declaration,
  \<open>kMaxTransportMessageSize\<close> and \<open>kMaxTransportChunkSize\<close> are not in the sources.
  Modelled from the spec: \<open>DataSize\<close> is the unsigned 32-bit length of the wire format and
  the buffers hold unsigned bytes. The two constants are parameters.
\<close>

type_synonym DataSize = "32 word"

datatype TransportCondition =
    kReceiveFailure
  | kReceiveTimeout
  | kSendFailure
  | kSendTimeout
  | kMessageSizeTooLarge

text \<open>The asynchronous operation a connection has started and is waiting for.\<close>

datatype async_op =
    NoOperation
  | AsyncConnect
  | AsyncWrite bytes    \<comment> \<open>the gathered bytes of \<open>size_buffer_\<close> and \<open>data_buffer_\<close>\<close>
  | AsyncReadSize
  | AsyncReadData nat   \<comment> \<open>bytes asked for, into \<open>data_buffer_\<close> from \<open>data_received_\<close> on\<close>
  | DispatchPosted

record TcpConnection =
  socket_open :: bool
  size_buffer :: bytes
  data_buffer :: bytes
  data_size :: nat
  data_received :: nat
  outstanding :: async_op
  errors_signalled :: "TransportCondition list"   \<comment> \<open>calls of the transport's \<open>on_error_\<close>\<close>
  in_connection_set :: bool                       \<comment> \<open>member of the transport's \<open>connections_\<close>\<close>

text \<open>A connection as the constructor leaves it, its socket opened by accept or connect.\<close>

definition new_connection :: TcpConnection where
  "new_connection =
     \<lparr>socket_open = True, size_buffer = replicate 4 0, data_buffer = [], data_size = 0,
      data_received = 0, outstanding = NoOperation, errors_signalled = [],
      in_connection_set = True\<rparr>"

definition DoClose :: "TcpConnection \<Rightarrow> TcpConnection" where
  "DoClose c = c\<lparr>socket_open := False, outstanding := NoOperation, in_connection_set := False\<rparr>"

definition CloseOnError :: "TransportCondition \<Rightarrow> TcpConnection \<Rightarrow> TcpConnection" where
  "CloseOnError error c = DoClose (c\<lparr>errors_signalled := errors_signalled c @ [error]\<rparr>)"

text \<open>
  \<open>CheckTimeout\<close> called with a cleared error code: \<open>expired\<close> tells whether the
  deadline timer has run out at the time of the call.
\<close>

definition CheckTimeout :: "bool \<Rightarrow> TcpConnection \<Rightarrow> TcpConnection" where
  "CheckTimeout expired c =
     (if \<not> socket_open c then c
      else if expired then c\<lparr>socket_open := False\<rparr>
      else c)"

text \<open>\<open>size_t\<close> subtraction wraps around (64-bit \<open>size_t\<close>).\<close>

definition size_t_minus :: "nat \<Rightarrow> nat \<Rightarrow> nat" where
  "size_t_minus a b = (if b \<le> a then a - b else 2 ^ 64 - (b - a))"

text \<open>\<open>std::vector::resize\<close>: truncate, or pad with zero bytes.\<close>

definition resize :: "nat \<Rightarrow> bytes \<Rightarrow> bytes" where
  "resize n xs = take n xs @ replicate (n - length xs) 0"

definition StartReadSize :: "TcpConnection \<Rightarrow> TcpConnection" where
  "StartReadSize c = c\<lparr>outstanding := AsyncReadSize\<rparr>"

definition StartReadData :: "nat \<Rightarrow> TcpConnection \<Rightarrow> TcpConnection" where
  "StartReadData kMaxTransportChunkSize c =
     (let buffer_size = data_received c
            + min kMaxTransportChunkSize (size_t_minus (data_size c) (data_received c))
      in c\<lparr>data_buffer := resize buffer_size (data_buffer c),
            outstanding := AsyncReadData (buffer_size - data_received c)\<rparr>)"

text \<open>
  The size decoded from the four bytes of \<open>size_buffer_\<close>, each promoted to 32 bits,
  shifted and or-ed.
\<close>

definition decode_size :: "byte \<Rightarrow> byte \<Rightarrow> byte \<Rightarrow> byte \<Rightarrow> DataSize" where
  "decode_size b0 b1 b2 b3 =
     push_bit 8 (push_bit 8 (push_bit 8 (ucast b0) OR ucast b1) OR ucast b2) OR ucast b3"

text \<open>
  \<open>HandleReadSize\<close>; \<open>ec\<close> tells whether the read reported an error. \<open>None\<close> is the
  exception of \<open>at\<close> on a buffer shorter than four bytes.
\<close>

definition HandleReadSize :: "nat \<Rightarrow> bool \<Rightarrow> bool \<Rightarrow> TcpConnection \<Rightarrow> TcpConnection option" where
  "HandleReadSize kMaxTransportChunkSize ec expired c =
     (if ec then Some (CloseOnError kReceiveFailure c)
      else let c = CheckTimeout expired c in
        if \<not> socket_open c then Some (CloseOnError kReceiveTimeout c)
        else if length (size_buffer c) < 4 then None
        else let size = decode_size (size_buffer c ! 0) (size_buffer c ! 1)
                                    (size_buffer c ! 2) (size_buffer c ! 3)
             in Some (StartReadData kMaxTransportChunkSize
                        (c\<lparr>data_size := unat size, data_received := 0\<rparr>)))"

text \<open>
  \<open>HandleReadData\<close>, called when the read has completed; \<open>len\<close> is its
  \<open>length\<close> argument, the number of bytes read.
\<close>

definition HandleReadData :: "nat \<Rightarrow> bool \<Rightarrow> bool \<Rightarrow> nat \<Rightarrow> TcpConnection \<Rightarrow> TcpConnection" where
  "HandleReadData kMaxTransportChunkSize ec expired len c =
     (if ec then CloseOnError kReceiveFailure c
      else let c = CheckTimeout expired c in
        if \<not> socket_open c then CloseOnError kReceiveTimeout c
        else let c = c\<lparr>data_received := data_received c + len\<rparr> in
          if data_received c = data_size c then c\<lparr>outstanding := DispatchPosted\<rparr>
          else StartReadData kMaxTransportChunkSize c)"

text \<open>
  \<open>EncodeData\<close>: the loop writes the four bytes of the size, most significant first.
  \<open>None\<close> is the exception of \<open>at\<close>.
\<close>

definition EncodeData :: "bytes \<Rightarrow> TcpConnection \<Rightarrow> TcpConnection option" where
  "EncodeData data_in c =
     (let msg_size = (of_nat (length data_in) :: DataSize) in
      if length (size_buffer c) < 4 then None
      else Some (c\<lparr>size_buffer :=
                      fold (\<lambda>i sb. sb[i := ucast (drop_bit (8 * (3 - i)) msg_size)]) [0..<4]
                        (size_buffer c),
                    data_buffer := data_in\<rparr>))"

definition StartWrite :: "TcpConnection \<Rightarrow> TcpConnection" where
  "StartWrite c = c\<lparr>outstanding := AsyncWrite (size_buffer c @ data_buffer c)\<rparr>"

text \<open>
  \<open>DispatchMessage\<close>: the transport's \<open>on_message_received_\<close> answers with a response;
  an empty or oversized response closes the connection, any other is encoded and written.
\<close>

definition DispatchMessage ::
  "DataSize \<Rightarrow> (bytes \<Rightarrow> bytes) \<Rightarrow> TcpConnection \<Rightarrow> TcpConnection option" where
  "DispatchMessage kMaxTransportMessageSize on_message_received c =
     (let response = on_message_received (data_buffer c);
          msg_size = (of_nat (length response) :: DataSize)
      in if response = [] \<or> msg_size > kMaxTransportMessageSize then Some (DoClose c)
         else map_option StartWrite (EncodeData response c))"

text \<open>
  \<open>StartConnect\<close>: the socket is closed when the connect is started, and
  \<open>async_connect\<close> opens it. \<open>StartSending\<close> encodes the message and then starts the
  connect.
\<close>

definition StartConnect :: "TcpConnection \<Rightarrow> TcpConnection" where
  "StartConnect c = c\<lparr>socket_open := True, outstanding := AsyncConnect\<rparr>"

definition StartSending :: "bytes \<Rightarrow> TcpConnection \<Rightarrow> TcpConnection option" where
  "StartSending data_in c = map_option StartConnect (EncodeData data_in c)"

text \<open>
  \<open>HandleConnect\<close>, called when the connect has completed: the socket is found closed
  only when the deadline has closed it in between.
\<close>

definition HandleConnect :: "bool \<Rightarrow> TcpConnection \<Rightarrow> TcpConnection" where
  "HandleConnect ec c =
     (if ec then CloseOnError kSendFailure c
      else if \<not> socket_open c then CloseOnError kSendTimeout c
      else StartWrite c)"

text \<open>
  \<open>TcpTransport::Send\<close>: an oversized message is refused; for any other a new
  connection, not yet connected, is made and starts sending.
\<close>

definition TcpTransport_Send :: "DataSize \<Rightarrow> bytes \<Rightarrow> TransportCondition + TcpConnection option" where
  "TcpTransport_Send kMaxTransportMessageSize data_in =
     (let msg_size = (of_nat (length data_in) :: DataSize) in
      if msg_size > kMaxTransportMessageSize then Inl kMessageSizeTooLarge
      else Inr (StartSending data_in (new_connection\<lparr>socket_open := False\<rparr>)))"

text \<open>
  Modelled from the spec: \<open>LocalTcpTransport::Send\<close>, the transport that the vault
  manager holds (\<open>local_tcp_transport.h\<close> is not in the sources). The outbound send of the
  spec validates the size, creates a connection and drives \<open>start_sending\<close>, which is what
  \<open>TcpTransport::Send\<close> does; the peer is the given local port.
\<close>

definition LocalTcpTransport_Send ::
  "DataSize \<Rightarrow> bytes \<Rightarrow> nat \<Rightarrow> TransportCondition + TcpConnection option" where
  "LocalTcpTransport_Send kMaxTransportMessageSize data_in port =
     TcpTransport_Send kMaxTransportMessageSize data_in"

text \<open>
  The bytes that a send puts on the wire once its connect has completed without error and
  in time: those of the write that \<open>HandleConnect\<close> starts. \<open>None\<close> when nothing is
  written.
\<close>

definition bytes_written :: "TransportCondition + TcpConnection option \<Rightarrow> bytes option" where
  "bytes_written sent =
     (case sent of
        Inl error \<Rightarrow> None
      | Inr None \<Rightarrow> None
      | Inr (Some c) \<Rightarrow>
          (case outstanding (HandleConnect False c) of
             AsyncWrite wire \<Rightarrow> Some wire
           | _ \<Rightarrow> None))"

text \<open>
  The receiving side fed with the bytes \<open>wire\<close> a peer has sent, every read completing
  without error and in time as soon as the bytes it asks for have arrived. A read that
  asks for more than the peer has sent does not complete, and the loop may run forever:
  the result is \<open>None\<close> unless a message is posted for dispatch.
\<close>

partial_function (option) ReadDataLoop :: "nat \<Rightarrow> bytes \<Rightarrow> TcpConnection \<Rightarrow> TcpConnection option" where
  "ReadDataLoop kMaxTransportChunkSize wire c =
     (case outstanding c of
        AsyncReadData asked \<Rightarrow>
          if length wire < asked then None
          else
            let c = HandleReadData kMaxTransportChunkSize False False asked
                      (c\<lparr>data_buffer := take (data_received c) (data_buffer c) @ take asked wire\<rparr>)
            in if outstanding c = DispatchPosted then Some c
               else ReadDataLoop kMaxTransportChunkSize (drop asked wire) c
      | _ \<Rightarrow> None)"

declare ReadDataLoop.simps [code]

definition ReceiveFrame :: "nat \<Rightarrow> bytes \<Rightarrow> TcpConnection \<Rightarrow> bytes option" where
  "ReceiveFrame kMaxTransportChunkSize wire c =
     (let n = length (size_buffer c) in
      if length wire < n then None
      else case HandleReadSize kMaxTransportChunkSize False False
                  ((StartReadSize c)\<lparr>size_buffer := take n wire\<rparr>) of
        None \<Rightarrow> None
      | Some c \<Rightarrow> map_option data_buffer (ReadDataLoop kMaxTransportChunkSize (drop n wire) c))"

text \<open>The frame of the spec: the length as four bytes, most significant first, then the payload.\<close>

definition big_endian_length :: "bytes \<Rightarrow> bytes" where
  "big_endian_length P =
     [of_nat (length P div 2 ^ 24 mod 256), of_nat (length P div 2 ^ 16 mod 256),
      of_nat (length P div 2 ^ 8 mod 256), of_nat (length P mod 256)]"


section \<open>The vault manager\<close>

text \<open>
  The handlers of \<open>vault_manager.cc\<close> as functions on the manager's state. What they
  do to the outside (process manager, config file, condition variables, timer, transport) is
  appended to \<open>actions\<close> in the order of the calls.

  Of the locks, \<open>vault_infos_mutex_\<close> is modelled: it is a \<open>std::mutex\<close>, which is
  not recursive, and some functions lock it and then call a function that locks it again. A
  function that may be called with the mutex held takes a parameter that tells whether the
  calling thread holds it. The other mutexes (\<open>update_mutex_\<close>, the mutex of a
  \<open>VaultInfo\<close>) are never locked by a thread that holds them and are left out.
\<close>

type_synonym Port = nat
type_synonym ProcessIndex = nat

text \<open>
  The message types of the control protocol; \<open>UnlistedType\<close> stands for any other tag
  value that a wrapper may carry.
\<close>

datatype MessageType =
    kPing
  | kStartVaultRequest
  | kStartVaultResponse
  | kVaultIdentityRequest
  | kVaultIdentityResponse
  | kStopVaultRequest
  | kVaultShutdownResponse
  | kUpdateIntervalRequest
  | kUpdateIntervalResponse
  | UnlistedType nat

record Keys =
  identity :: bytes
  public_key :: bytes
  private_key :: bytes

record VaultInfo =
  process_index :: ProcessIndex
  account_name :: bytes
  keys :: Keys
  chunkstore_path :: bytes
  chunkstore_capacity :: nat
  client_port :: Port
  vault_port :: Port
  requested_to_run :: bool
  vault_requested :: bool

text \<open>\<open>protobuf::VaultInfo\<close> and \<open>protobuf::VaultManagerConfig\<close>, the config file's records.\<close>

record pb_VaultInfo =
  pb_account_name :: bytes
  pb_keys :: bytes
  pb_chunkstore_path :: bytes
  pb_chunkstore_capacity :: nat
  pb_requested_to_run :: bool

record VaultManagerConfig =
  config_update_interval :: nat
  config_vault_info :: "pb_VaultInfo list"

record StartVaultRequest =
  start_account_name :: bytes
  start_keys :: bytes
  bootstrap_endpoint :: bytes

record StopVaultRequest =
  stop_identity :: bytes
  stop_data :: bytes
  stop_signature :: bytes

datatype vm_action =
    AddProcess bytes nat bytes          \<comment> \<open>chunkstore path, capacity, bootstrap endpoint\<close>
  | StartProcess ProcessIndex
  | StopProcess ProcessIndex
  | WriteFile VaultManagerConfig        \<comment> \<open>the config file written with this content\<close>
  | WaitForVaultRequested ProcessIndex nat   \<comment> \<open>\<open>cond_var.wait_for\<close>, seconds\<close>
  | NotifyVaultRequested ProcessIndex
  | RearmUpdateTimer nat
  | NotifyAll
  | Send bytes Port                     \<comment> \<open>\<open>transport_->Send(response, peer_port)\<close>\<close>

record VaultManager =
  vault_infos :: "VaultInfo list"
  update_interval :: nat                \<comment> \<open>seconds\<close>
  config_file :: "VaultManagerConfig option"   \<comment> \<open>the content of the config file\<close>
  actions :: "vm_action list"

text \<open>
  How a call ends. A thread that locks \<open>vault_infos_mutex_\<close> while it holds it does not
  come back from the lock (the standard leaves the behaviour undefined; the usual
  implementations wait forever): the call \<open>Blocks\<close>, with the manager in the state it had
  at that point, and nothing that follows the call in the source is run.
\<close>

datatype 'a run =
    Returns 'a
  | Blocks VaultManager

text \<open>
  The message codecs, the key functions and the path helpers are not in the sources; they
  are parameters. A key is held as its bytes.
\<close>

record vm_env =
  UnwrapMessage :: "bytes \<Rightarrow> (MessageType \<times> bytes) option"
  WrapMessage :: "MessageType \<Rightarrow> bytes \<Rightarrow> bytes"
  ParsePing :: "bytes \<Rightarrow> bool"
  ParseStartVaultRequest :: "bytes \<Rightarrow> StartVaultRequest option"
  ParseVaultIdentityRequest :: "bytes \<Rightarrow> ProcessIndex option"
  ParseStopVaultRequest :: "bytes \<Rightarrow> StopVaultRequest option"
  ParseUpdateIntervalRequest :: "bytes \<Rightarrow> nat option option"
  SerializeStartVaultResponse :: "bool \<Rightarrow> bytes"
  SerializeVaultIdentityResponse :: "bytes \<Rightarrow> bytes \<Rightarrow> bytes"
  SerializeStopVaultResponse :: "bool \<Rightarrow> bytes"
  SerializeUpdateIntervalResponse :: "nat \<Rightarrow> bytes"
  ParseKeys :: "bytes \<Rightarrow> Keys"
  SerialiseKeys :: "Keys \<Rightarrow> bytes option"
  Validate :: "bytes \<Rightarrow> bytes \<Rightarrow> bytes \<Rightarrow> bool"
  ShortVaultId :: "bytes \<Rightarrow> bytes"       \<comment> \<open>\<open>EncodeToBase32(crypto::Hash<crypto::SHA1>(identity))\<close>\<close>
  VaultDirectory :: "bytes \<Rightarrow> bytes"     \<comment> \<open>\<open>config_file_path_.parent_path() / short_vault_id\<close>\<close>
  kInvalidIndex :: ProcessIndex

text \<open>
  What the file system, the process manager and the spawned vault do during one handler
  call: the outcomes of the calls the handler makes on them.
\<close>

record outcomes =
  create_directories_fails :: bool
  bootstrap_file_exists :: bool
  copy_file_fails :: bool
  SetExecutablePath_succeeds :: bool
  AddProcess_returns :: ProcessIndex
  WriteFile_succeeds :: bool
  vault_requested_in_time :: bool   \<comment> \<open>\<open>vault_requested\<close> is set before the wait gives up\<close>

definition HandleBootstrapFile :: "outcomes \<Rightarrow> bool" where
  "HandleBootstrapFile w =
     (if create_directories_fails w then False
      else if \<not> bootstrap_file_exists w \<and> copy_file_fails w then False
      else True)"

text \<open>\<open>std::find_if\<close>: the position of the first element that satisfies the predicate.\<close>

fun find_if :: "('a \<Rightarrow> bool) \<Rightarrow> 'a list \<Rightarrow> nat option" where
  "find_if p [] = None"
| "find_if p (x # xs) = (if p x then Some 0 else map_option Suc (find_if p xs))"

definition new_VaultInfo :: VaultInfo where
  "new_VaultInfo =
     \<lparr>process_index = 0, account_name = [],
      keys = \<lparr>identity = [], public_key = [], private_key = []\<rparr>,
      chunkstore_path = [], chunkstore_capacity = 0, client_port = 0, vault_port = 0,
      requested_to_run = False, vault_requested = False\<rparr>"

definition ToProtobuf :: "vm_env \<Rightarrow> VaultInfo \<Rightarrow> pb_VaultInfo" where
  "ToProtobuf env vault_info =
     \<lparr>pb_account_name = account_name vault_info,
      pb_keys = (case SerialiseKeys env (keys vault_info) of None \<Rightarrow> [] | Some k \<Rightarrow> k),
      pb_chunkstore_path = chunkstore_path vault_info,
      pb_chunkstore_capacity = chunkstore_capacity vault_info,
      pb_requested_to_run = requested_to_run vault_info\<rparr>"

definition add_action :: "vm_action \<Rightarrow> VaultManager \<Rightarrow> VaultManager" where
  "add_action a vm = vm\<lparr>actions := actions vm @ [a]\<rparr>"

text \<open>
  \<open>WriteConfigFile\<close> locks \<open>vault_infos_mutex_\<close> to read the vault records.
\<close>

definition WriteConfigFile ::
  "vm_env \<Rightarrow> outcomes \<Rightarrow> bool \<Rightarrow> VaultManager \<Rightarrow> (bool \<times> VaultManager) run" where
  "WriteConfigFile env w holds_vault_infos_mutex vm =
     (if holds_vault_infos_mutex then Blocks vm
      else
        let config = \<lparr>config_update_interval = update_interval vm,
                      config_vault_info = map (ToProtobuf env) (vault_infos vm)\<rparr>
        in if \<not> WriteFile_succeeds w then Returns (False, vm)
           else Returns (True, add_action (WriteFile config) (vm\<lparr>config_file := Some config\<rparr>)))"

definition AddVaultToProcesses ::
  "vm_env \<Rightarrow> outcomes \<Rightarrow> bytes \<Rightarrow> nat \<Rightarrow> bytes \<Rightarrow> VaultManager \<Rightarrow> ProcessIndex \<times> VaultManager" where
  "AddVaultToProcesses env w chunkstore_path_arg chunkstore_capacity_arg bootstrap_endpoint_arg vm =
     (if \<not> SetExecutablePath_succeeds w then (kInvalidIndex env, vm)
      else (AddProcess_returns w,
            add_action (AddProcess chunkstore_path_arg chunkstore_capacity_arg
                          bootstrap_endpoint_arg) vm))"

text \<open>Every handler returns the \<open>response\<close> string, empty unless the handler sets it.\<close>

definition HandlePing :: "vm_env \<Rightarrow> bytes \<Rightarrow> VaultManager \<Rightarrow> bytes \<times> VaultManager" where
  "HandlePing env request vm =
     (if \<not> ParsePing env request then ([], vm)
      else (WrapMessage env kPing request, vm))"

text \<open>
  \<open>HandleStartVaultRequest\<close> holds \<open>vault_infos_mutex_\<close> only around the
  \<open>push_back\<close>; \<open>WriteConfigFile\<close> is called after the lock is released.
\<close>

definition HandleStartVaultRequest ::
  "vm_env \<Rightarrow> outcomes \<Rightarrow> bytes \<Rightarrow> VaultManager \<Rightarrow> (bytes \<times> VaultManager) run" where
  "HandleStartVaultRequest env w request vm =
     (case ParseStartVaultRequest env request of
        None \<Rightarrow> Returns ([], vm)
      | Some start_vault_request \<Rightarrow>
          let set_response = (\<lambda>result. WrapMessage env kStartVaultResponse
                                          (SerializeStartVaultResponse env result));
              vault_info = new_VaultInfo\<lparr>account_name := start_account_name start_vault_request,
                                         keys := ParseKeys env (start_keys start_vault_request)\<rparr>;
              short_vault_id = ShortVaultId env (identity (keys vault_info));
              vault_info = vault_info\<lparr>chunkstore_path := VaultDirectory env short_vault_id\<rparr>
          in
          if \<not> HandleBootstrapFile w then Returns (set_response False, vm)
          else
            let vault_info = vault_info\<lparr>chunkstore_capacity := 0\<rparr>;
                (index, vm) = AddVaultToProcesses env w (chunkstore_path vault_info)
                                (chunkstore_capacity vault_info)
                                (bootstrap_endpoint start_vault_request) vm;
                vault_info = vault_info\<lparr>process_index := index\<rparr>
            in
            if process_index vault_info = kInvalidIndex env then Returns (set_response False, vm)
            else
              let vm = add_action (StartProcess (process_index vault_info)) vm;
                  vm = vm\<lparr>vault_infos := vault_infos vm @ [vault_info]\<rparr>
              in
              (case WriteConfigFile env w False vm of
                 Blocks vm \<Rightarrow> Blocks vm
               | Returns (written, vm) \<Rightarrow>
                   let vm = add_action (WaitForVaultRequested (process_index vault_info) 3) vm
                   in
                   if \<not> vault_requested_in_time w then Returns (set_response False, vm)
                   else Returns (set_response True, vm)))"

definition HandleVaultIdentityRequest ::
  "vm_env \<Rightarrow> bytes \<Rightarrow> VaultManager \<Rightarrow> bytes \<times> VaultManager" where
  "HandleVaultIdentityRequest env request vm =
     (case ParseVaultIdentityRequest env request of
        None \<Rightarrow> ([], vm)
      | Some requested_index \<Rightarrow>
          let respond = (\<lambda>name serialised. WrapMessage env kVaultIdentityResponse
                                              (SerializeVaultIdentityResponse env name serialised))
          in
          (case find_if (\<lambda>vault_info. process_index vault_info = requested_index)
                  (vault_infos vm) of
             None \<Rightarrow> (respond [] [], vm)
           | Some itr \<Rightarrow>
               (case SerialiseKeys env (keys (vault_infos vm ! itr)) of
                  None \<Rightarrow> (respond [] [], vm)
                | Some serialised_keys \<Rightarrow>
                    (respond (account_name (vault_infos vm ! itr)) serialised_keys,
                     add_action (NotifyVaultRequested requested_index)
                       (vm\<lparr>vault_infos :=
                             (vault_infos vm)[itr := (vault_infos vm ! itr)
                                                       \<lparr>vault_requested := True\<rparr>]\<rparr>)))))"

text \<open>
  \<open>StopVault\<close> locks \<open>vault_infos_mutex_\<close> in its first statement and holds it to its
  end, the call of \<open>WriteConfigFile\<close> included.
\<close>

definition StopVault ::
  "vm_env \<Rightarrow> outcomes \<Rightarrow> bool \<Rightarrow> bytes \<Rightarrow> VaultManager \<Rightarrow> VaultManager run" where
  "StopVault env w holds_vault_infos_mutex identity_arg vm =
     (if holds_vault_infos_mutex then Blocks vm
      else
        (case find_if (\<lambda>vault_info. identity (keys vault_info) = identity_arg)
                (vault_infos vm) of
           None \<Rightarrow> Returns vm
         | Some itr \<Rightarrow>
             let vm = add_action (StopProcess (process_index (vault_infos vm ! itr))) vm;
                 vm = vm\<lparr>vault_infos :=
                            (vault_infos vm)[itr := (vault_infos vm ! itr)
                                                      \<lparr>requested_to_run := False\<rparr>]\<rparr>
             in
             (case WriteConfigFile env w True vm of
                Blocks vm \<Rightarrow> Blocks vm
              | Returns (written, vm) \<Rightarrow> Returns vm)))"

text \<open>
  \<open>HandleStopVaultRequest\<close> locks \<open>vault_infos_mutex_\<close> once the request has parsed
  and holds it to its end, the call of \<open>StopVault\<close> included.
\<close>

definition HandleStopVaultRequest ::
  "vm_env \<Rightarrow> outcomes \<Rightarrow> bytes \<Rightarrow> VaultManager \<Rightarrow> (bytes \<times> VaultManager) run" where
  "HandleStopVaultRequest env w request vm =
     (case ParseStopVaultRequest env request of
        None \<Rightarrow> Returns ([], vm)
      | Some stop_vault_request \<Rightarrow>
          let result =
                (case find_if (\<lambda>vault_info. identity (keys vault_info)
                                               = stop_identity stop_vault_request)
                        (vault_infos vm) of
                   None \<Rightarrow> False
                 | Some itr \<Rightarrow>
                     if \<not> Validate env (stop_data stop_vault_request)
                              (stop_signature stop_vault_request)
                              (public_key (keys (vault_infos vm ! itr)))
                     then False
                     else True);
              response = WrapMessage env kVaultShutdownResponse
                           (SerializeStopVaultResponse env result)
          in
          (case StopVault env w True (stop_identity stop_vault_request) vm of
             Blocks vm \<Rightarrow> Blocks vm
           | Returns vm \<Rightarrow> Returns (response, add_action NotifyAll vm)))"

definition kMinUpdateInterval :: nat where
  "kMinUpdateInterval = 5 * 60"

definition kMaxUpdateInterval :: nat where
  "kMaxUpdateInterval = 24 * 7 * 3600"

definition SetUpdateInterval :: "nat \<Rightarrow> VaultManager \<Rightarrow> bool \<times> VaultManager" where
  "SetUpdateInterval new_interval vm =
     (if new_interval < kMinUpdateInterval \<or> new_interval > kMaxUpdateInterval then (False, vm)
      else (True, add_action (RearmUpdateTimer new_interval)
                    (vm\<lparr>update_interval := new_interval\<rparr>)))"

definition HandleUpdateIntervalRequest ::
  "vm_env \<Rightarrow> bytes \<Rightarrow> VaultManager \<Rightarrow> bytes \<times> VaultManager" where
  "HandleUpdateIntervalRequest env request vm =
     (case ParseUpdateIntervalRequest env request of
        None \<Rightarrow> ([], vm)
      | Some update_interval_request \<Rightarrow>
          let respond = (\<lambda>seconds. WrapMessage env kUpdateIntervalResponse
                                      (SerializeUpdateIntervalResponse env seconds))
          in
          (case update_interval_request of
             Some new_update_interval \<Rightarrow>
               let (was_set, vm) = SetUpdateInterval new_update_interval vm
               in if was_set then (respond (update_interval vm), vm) else (respond 0, vm)
           | None \<Rightarrow> (respond (update_interval vm), vm)))"

definition HandleReceivedMessage ::
  "vm_env \<Rightarrow> outcomes \<Rightarrow> bytes \<Rightarrow> Port \<Rightarrow> VaultManager \<Rightarrow> VaultManager run" where
  "HandleReceivedMessage env w message peer_port vm =
     (case UnwrapMessage env message of
        None \<Rightarrow> Returns vm
      | Some (type, payload) \<Rightarrow>
          let send = (\<lambda>handled.
                        case handled of
                          Blocks vm \<Rightarrow> Blocks vm
                        | Returns (response, vm) \<Rightarrow>
                            Returns (add_action (Send response peer_port) vm))
          in
          (case type of
             kPing \<Rightarrow> send (Returns (HandlePing env payload vm))
           | kStartVaultRequest \<Rightarrow> send (HandleStartVaultRequest env w payload vm)
           | kVaultIdentityRequest \<Rightarrow> send (Returns (HandleVaultIdentityRequest env payload vm))
           | kStopVaultRequest \<Rightarrow> send (HandleStopVaultRequest env w payload vm)
           | kUpdateIntervalRequest \<Rightarrow> send (Returns (HandleUpdateIntervalRequest env payload vm))
           | _ \<Rightarrow> Returns vm))"

subsection \<open>A concrete manager\<close>

text \<open>
  A small instance of the codecs: the first byte of a message is its type tag; a stop
  request is three bytes, identity, data and signature; a signature validates when it is the
  public key; a start request is one byte that serves as account name and key material.
\<close>

definition example_tag :: "byte \<Rightarrow> MessageType" where
  "example_tag t =
     (if t = 1 then kPing
      else if t = 2 then kStartVaultRequest
      else if t = 4 then kVaultIdentityRequest
      else if t = 6 then kStopVaultRequest
      else if t = 8 then kUpdateIntervalRequest
      else UnlistedType (unat t))"

definition example_vm_env :: vm_env where
  "example_vm_env =
     \<lparr> UnwrapMessage = (\<lambda>m. case m of [] \<Rightarrow> None | t # payload \<Rightarrow> Some (example_tag t, payload)),
       WrapMessage = (\<lambda>t payload.
          (case t of kPing \<Rightarrow> 1 | kStartVaultResponse \<Rightarrow> 3 | kVaultIdentityResponse \<Rightarrow> 5
                   | kVaultShutdownResponse \<Rightarrow> 7 | kUpdateIntervalResponse \<Rightarrow> 9 | _ \<Rightarrow> 0) # payload),
       ParsePing = (\<lambda>b. b = [1]),
       ParseStartVaultRequest =
         (\<lambda>b. case b of
                 [a] \<Rightarrow> Some \<lparr>start_account_name = [a], start_keys = [a], bootstrap_endpoint = []\<rparr>
               | _ \<Rightarrow> None),
       ParseVaultIdentityRequest = (\<lambda>b. case b of [i] \<Rightarrow> Some (unat i) | _ \<Rightarrow> None),
       ParseStopVaultRequest =
         (\<lambda>b. case b of
                 [i, d, s] \<Rightarrow> Some \<lparr>stop_identity = [i], stop_data = [d], stop_signature = [s]\<rparr>
               | _ \<Rightarrow> None),
       ParseUpdateIntervalRequest =
         (\<lambda>b. case b of [] \<Rightarrow> Some None | [n] \<Rightarrow> Some (Some (unat n * 3600)) | _ \<Rightarrow> None),
       SerializeStartVaultResponse = (\<lambda>result. [if result then 1 else 0]),
       SerializeVaultIdentityResponse = (\<lambda>name serialised. name @ serialised),
       SerializeStopVaultResponse = (\<lambda>result. [if result then 1 else 0]),
       SerializeUpdateIntervalResponse = (\<lambda>seconds. [of_nat (seconds div 3600)]),
       ParseKeys = (\<lambda>b. \<lparr>identity = b, public_key = b, private_key = b\<rparr>),
       SerialiseKeys = (\<lambda>k. Some (identity k)),
       Validate = (\<lambda>d s k. s = k),
       ShortVaultId = (\<lambda>i. i),
       VaultDirectory = (\<lambda>i. i),
       kInvalidIndex = 0 \<rparr>"

definition example_outcomes :: "bool \<Rightarrow> outcomes" where
  "example_outcomes in_time =
     \<lparr>create_directories_fails = False, bootstrap_file_exists = True, copy_file_fails = False,
      SetExecutablePath_succeeds = True, AddProcess_returns = 2, WriteFile_succeeds = True,
      vault_requested_in_time = in_time\<rparr>"

text \<open>A manager that runs one vault, of identity and public key 5, as process 1.\<close>

definition example_vault :: VaultInfo where
  "example_vault =
     \<lparr>process_index = 1, account_name = [5],
      keys = \<lparr>identity = [5], public_key = [5], private_key = [5]\<rparr>,
      chunkstore_path = [5], chunkstore_capacity = 0, client_port = 0, vault_port = 0,
      requested_to_run = True, vault_requested = True\<rparr>"

definition example_manager :: VaultManager where
  "example_manager =
     \<lparr>vault_infos = [example_vault], update_interval = 86400,
      config_file = Some \<lparr>config_update_interval = 86400,
                          config_vault_info = [ToProtobuf example_vm_env example_vault]\<rparr>,
      actions = []\<rparr>"


text \<open>
  The record that \<open>HandleStartVaultRequest\<close> builds for the vault it starts, once the
  process manager has given it an index.
\<close>

definition started_vault :: "vm_env \<Rightarrow> outcomes \<Rightarrow> StartVaultRequest \<Rightarrow> VaultInfo" where
  "started_vault env w r =
     new_VaultInfo\<lparr>account_name := start_account_name r,
                   keys := ParseKeys env (start_keys r),
                   chunkstore_path :=
                     VaultDirectory env (ShortVaultId env (identity (ParseKeys env (start_keys r)))),
                   chunkstore_capacity := 0,
                   process_index := AddProcess_returns w\<rparr>"

section \<open>Properties of the appendable-by-all rules\<close>

lemma char_equals_tag_iff: "char_equals_tag c kAppendableByAll \<longleftrightarrow> c = kAppendableByAll"
  unfolding char_equals_tag_def kAppendableByAll_def
  using word_eq_iff_signed by fastforce

lemma stored_chunk_Get:
  "stored_chunk env chunk_store name C \<Longrightarrow>
     \<exists>content. ChunkStore_Get name chunk_store = (content, chunk_store) \<and> content \<noteq> []
        \<and> ParseAppendableByAll env content = Some C"
  by (auto simp: stored_chunk_def ChunkStore_Get_def split: option.splits)

text \<open>
  C1: for every stored appendable-by-all chunk \<open>C\<close> and every valid public key \<open>K\<close>,
  \<open>ProcessGet\<close> returns \<open>kSuccess\<close> and \<open>C\<close> serialized with its appendices cleared
  when \<open>K\<close> verifies the signature of \<open>C.allow_others_to_append\<close> (the owner), and
  returns \<open>kNotOwner\<close> and the serialized \<open>C.identity_key\<close> alone otherwise.
\<close>

theorem ProcessGet_owner_or_identity:
  assumes "stored_chunk env chunk_store name C" and "ValidateKey env K"
  shows "ProcessGet env name version K chunk_store =
           (if is_owner_of env K C
            then (kSuccess, SerializeAppendableByAll env (C\<lparr>appendices := []\<rparr>), chunk_store)
            else (kNotOwner, SerializeSignedData env (identity_key C), chunk_store))"
proof -
  from assms(1) obtain content where
    "ChunkStore_Get name chunk_store = (content, chunk_store)" "content \<noteq> []"
    "ParseAppendableByAll env content = Some C"
    using stored_chunk_Get by blast
  with assms(2) show ?thesis
    by (simp add: ProcessGet_def is_owner_of_def)
qed

theorem ProcessGet_owner_or_identity_witness:
  "stored_chunk example_codec example_store [42] (example_chunk 1)
   \<and> ValidateKey example_codec 7 \<and> is_owner_of example_codec 7 (example_chunk 1)
   \<and> ProcessGet example_codec [42] [] 7 example_store = (kSuccess, [3, 1], example_store)
   \<and> ValidateKey example_codec 8 \<and> \<not> is_owner_of example_codec 8 (example_chunk 1)
   \<and> ProcessGet example_codec [42] [] 8 example_store = (kNotOwner, [7, 3], example_store)"
  using ProcessGet_owner_or_identity [of example_codec example_store "[42]" "example_chunk 1" 7 "[]"]
        ProcessGet_owner_or_identity [of example_codec example_store "[42]" "example_chunk 1" 8 "[]"]
  by (simp add: stored_chunk_def example_codec_def example_store_def example_chunk_def
        is_owner_of_def)

text \<open>
  C2: for a stored chunk whose \<open>allow_others_to_append.data\<close> starts with the byte \<open>b\<close>
  and a caller with a valid key who is not the owner: when \<open>b\<close> is the tag
  \<open>kAppendableByAll\<close>, the content parses as a \<open>SignedData\<close> and its signature verifies
  under the caller's key, \<open>ProcessModify\<close> returns \<open>kSuccess\<close> and the chunk with that
  \<open>SignedData\<close> as one more, last appendix and nothing else changed; when \<open>b\<close> is not the
  tag, it returns \<open>kAppendDisallowed\<close>.
\<close>

theorem ProcessModify_non_owner:
  assumes "stored_chunk env chunk_store name E" and "ValidateKey env K"
    and "\<not> is_owner_of env K E"
    and "data (allow_others_to_append E) = b # rest"
  shows "(b = kAppendableByAll \<and> ParseSignedData env content = Some appendix
            \<and> CheckSignature env (data appendix) (signature appendix) K = kSuccess
          \<longrightarrow> ProcessModify env name content version K chunk_store =
                (kSuccess,
                 SerializeAppendableByAll env (E\<lparr>appendices := appendices E @ [appendix]\<rparr>),
                 chunk_store))
       \<and> (b \<noteq> kAppendableByAll
          \<longrightarrow> ProcessModify env name content version K chunk_store =
                (kAppendDisallowed, [], chunk_store))"
proof -
  from assms(1) obtain existing where
    "ChunkStore_Get name chunk_store = (existing, chunk_store)" "existing \<noteq> []"
    "ParseAppendableByAll env existing = Some E"
    using stored_chunk_Get by blast
  with assms(2-4) show ?thesis
    by (auto simp: ProcessModify_def ModifyAsOther_def is_owner_of_def c_str_0_def
          char_equals_tag_iff)
qed

theorem ProcessModify_non_owner_witness:
  "stored_chunk example_codec example_store [42] (example_chunk 1)
   \<and> stored_chunk example_codec example_store [43] (example_chunk 0)
   \<and> ValidateKey example_codec 8
   \<and> \<not> is_owner_of example_codec 8 (example_chunk 1)
   \<and> \<not> is_owner_of example_codec 8 (example_chunk 0)
   \<and> ParseSignedData example_codec [8, 6] = Some \<lparr>data = [6], signature = [8]\<rparr>
   \<and> CheckSignature example_codec [6] [8] 8 = kSuccess
   \<and> ProcessModify example_codec [42] [8, 6] [] 8 example_store
       = (kSuccess, [3, 1, 9, 5, 8, 6], example_store)
   \<and> ProcessModify example_codec [43] [8, 6] [] 8 example_store
       = (kAppendDisallowed, [], example_store)"
  using ProcessModify_non_owner [of example_codec example_store "[42]" "example_chunk 1" 8 1 "[]"
          "[8, 6]" "\<lparr>data = [6], signature = [8]\<rparr>" "[]"]
        ProcessModify_non_owner [of example_codec example_store "[43]" "example_chunk 0" 8 0 "[]"
          "[8, 6]" "\<lparr>data = [6], signature = [8]\<rparr>" "[]"]
  by (simp add: stored_chunk_def example_codec_def example_store_def example_chunk_def
        is_owner_of_def kAppendableByAll_def)

text \<open>
  C3: for an owner's \<open>ProcessModify\<close> of a stored chunk with a content that parses as
  \<open>ModifyAppendableByAll\<close>: when neither or both of its two fields have non-empty data the
  result is \<open>kInvalidModify\<close>; when exactly one has, and its signature verifies under the
  owner's key, the new content is the existing chunk with its appendices cleared if the
  field's data equals the existing field's data, and the existing chunk with that one field
  replaced and the appendices untouched if it differs.
\<close>

theorem ProcessModify_owner:
  assumes "stored_chunk env chunk_store name E" and "ValidateKey env K"
    and "is_owner_of env K E"
    and "ParseModifyAppendableByAll env content = Some (ModifyAppendableByAll new_allow new_identity)"
  shows "((data new_allow = []) = (data new_identity = [])
          \<longrightarrow> ProcessModify env name content version K chunk_store
                = (kInvalidModify, [], chunk_store))
       \<and> (data new_allow \<noteq> [] \<and> data new_identity = []
            \<and> CheckSignature env (data new_allow) (signature new_allow) K = kSuccess
          \<longrightarrow> ProcessModify env name content version K chunk_store
                = (kSuccess,
                   SerializeAppendableByAll env
                     (if data new_allow = data (allow_others_to_append E)
                      then E\<lparr>appendices := []\<rparr>
                      else E\<lparr>allow_others_to_append := new_allow\<rparr>),
                   chunk_store))
       \<and> (data new_identity \<noteq> [] \<and> data new_allow = []
            \<and> CheckSignature env (data new_identity) (signature new_identity) K = kSuccess
          \<longrightarrow> ProcessModify env name content version K chunk_store
                = (kSuccess,
                   SerializeAppendableByAll env
                     (if data new_identity = data (identity_key E)
                      then E\<lparr>appendices := []\<rparr>
                      else E\<lparr>identity_key := new_identity\<rparr>),
                   chunk_store))"
proof -
  from assms(1) obtain existing where
    "ChunkStore_Get name chunk_store = (existing, chunk_store)" "existing \<noteq> []"
    "ParseAppendableByAll env existing = Some E"
    using stored_chunk_Get by blast
  with assms(2-4) show ?thesis
    by (auto simp: ProcessModify_def ModifyAsOwner_def is_owner_of_def)
qed

theorem ProcessModify_owner_witness:
  "stored_chunk example_codec example_store [42] (example_chunk 1)
   \<and> ValidateKey example_codec 7 \<and> is_owner_of example_codec 7 (example_chunk 1)
   \<and> ProcessModify example_codec [42] [7, 0, 0] [] 7 example_store
       = (kInvalidModify, [], example_store)
   \<and> ProcessModify example_codec [42] [7, 2, 4] [] 7 example_store
       = (kInvalidModify, [], example_store)
   \<and> ProcessModify example_codec [42] [7, 1, 0] [] 7 example_store
       = (kSuccess, [3, 1], example_store)
   \<and> ProcessModify example_codec [42] [7, 2, 0] [] 7 example_store
       = (kSuccess, [3, 2, 9, 5], example_store)
   \<and> ProcessModify example_codec [42] [7, 0, 3] [] 7 example_store
       = (kSuccess, [3, 1], example_store)
   \<and> ProcessModify example_codec [42] [7, 0, 4] [] 7 example_store
       = (kSuccess, [4, 1, 9, 5], example_store)"
  using ProcessModify_owner [of example_codec example_store "[42]" "example_chunk 1" 7 "[7, 0, 0]"
          "\<lparr>data = [], signature = [7]\<rparr>" "\<lparr>data = [], signature = [7]\<rparr>" "[]"]
        ProcessModify_owner [of example_codec example_store "[42]" "example_chunk 1" 7 "[7, 2, 4]"
          "\<lparr>data = [2], signature = [7]\<rparr>" "\<lparr>data = [4], signature = [7]\<rparr>" "[]"]
        ProcessModify_owner [of example_codec example_store "[42]" "example_chunk 1" 7 "[7, 1, 0]"
          "\<lparr>data = [1], signature = [7]\<rparr>" "\<lparr>data = [], signature = [7]\<rparr>" "[]"]
        ProcessModify_owner [of example_codec example_store "[42]" "example_chunk 1" 7 "[7, 2, 0]"
          "\<lparr>data = [2], signature = [7]\<rparr>" "\<lparr>data = [], signature = [7]\<rparr>" "[]"]
        ProcessModify_owner [of example_codec example_store "[42]" "example_chunk 1" 7 "[7, 0, 3]"
          "\<lparr>data = [], signature = [7]\<rparr>" "\<lparr>data = [3], signature = [7]\<rparr>" "[]"]
        ProcessModify_owner [of example_codec example_store "[42]" "example_chunk 1" 7 "[7, 0, 4]"
          "\<lparr>data = [], signature = [7]\<rparr>" "\<lparr>data = [4], signature = [7]\<rparr>" "[]"]
  by (simp add: stored_chunk_def example_codec_def example_store_def example_chunk_def
        is_owner_of_def)

text \<open>
  C4, as stated, for every key: an existing chunk, a proof that does not parse, and yet
  \<open>ProcessDelete\<close> does not answer \<open>kNotOwner\<close>. The key is checked before the proof
  is looked at: a valid key that is not the owner's (8) gets
  \<open>kSignatureVerificationFailure\<close>, an invalid key (0) gets \<open>kInvalidPublicKey\<close>.
\<close>

theorem ProcessDelete_malformed_proof_counterexample:
  "stored_chunk example_codec example_store [42] (example_chunk 1)
   \<and> ParseSignedData example_codec [] = None
   \<and> ProcessDelete example_codec [42] [] [] 8 example_store
       = (kSignatureVerificationFailure, example_store)
   \<and> ProcessDelete example_codec [42] [] [] 0 example_store
       = (kInvalidPublicKey, example_store)
   \<and> fst (ProcessDelete example_codec [42] [] [] 8 example_store) \<noteq> kNotOwner"
  by (simp add: stored_chunk_def example_codec_def example_store_def example_chunk_def
        ProcessDelete_def ChunkStore_Get_def)

text \<open>
  C4, amended: for every existing chunk \<open>C\<close>, every valid key \<open>K\<close> that verifies the
  signature of \<open>C.allow_others_to_append\<close> (the owner's key), and every ownership proof that
  does not parse as a \<open>SignedData\<close> or whose signature does not verify under \<open>K\<close>,
  \<open>ProcessDelete\<close> returns \<open>kNotOwner\<close> and the store is unchanged.
\<close>

theorem ProcessDelete_owner_malformed_proof:
  assumes "stored_chunk env chunk_store name C" and "ValidateKey env K"
    and "is_owner_of env K C"
    and "malformed_proof env K ownership_proof"
  shows "ProcessDelete env name version ownership_proof K chunk_store = (kNotOwner, chunk_store)"
proof -
  from assms(1) obtain existing where
    "ChunkStore_Get name chunk_store = (existing, chunk_store)" "existing \<noteq> []"
    "ParseAppendableByAll env existing = Some C"
    using stored_chunk_Get by blast
  with assms(2-4) show ?thesis
    by (auto simp: ProcessDelete_def malformed_proof_def is_owner_of_def split: option.splits)
qed

theorem ProcessDelete_owner_malformed_proof_witness:
  "stored_chunk example_codec example_store [42] (example_chunk 1)
   \<and> ValidateKey example_codec 7 \<and> is_owner_of example_codec 7 (example_chunk 1)
   \<and> malformed_proof example_codec 7 [] \<and> malformed_proof example_codec 7 [8, 6]
   \<and> ProcessDelete example_codec [42] [] [] 7 example_store = (kNotOwner, example_store)
   \<and> ProcessDelete example_codec [42] [] [8, 6] 7 example_store = (kNotOwner, example_store)"
  using ProcessDelete_owner_malformed_proof
          [of example_codec example_store "[42]" "example_chunk 1" 7 "[]" "[]"]
        ProcessDelete_owner_malformed_proof
          [of example_codec example_store "[42]" "example_chunk 1" 7 "[8, 6]" "[]"]
  by (simp add: stored_chunk_def example_codec_def example_store_def example_chunk_def
        is_owner_of_def malformed_proof_def)

text \<open>
  C10: none of the five handlers (Get, Store, Delete, Modify, Has) changes the chunk store;
  each leaves behind the store it was given, whatever it returns. The views that Get and
  Modify compute go to their output parameter only.
\<close>

theorem handlers_leave_store_unchanged:
  "snd (snd (ProcessGet env name version K chunk_store)) = chunk_store
   \<and> snd (ProcessStore env name content K chunk_store) = chunk_store
   \<and> snd (ProcessDelete env name version ownership_proof K chunk_store) = chunk_store
   \<and> snd (snd (ProcessModify env name content version K chunk_store)) = chunk_store
   \<and> snd (ProcessHas env name version K chunk_store) = chunk_store"
proof (intro conjI)
  show "snd (snd (ProcessGet env name version K chunk_store)) = chunk_store"
    by (simp add: ProcessGet_def ChunkStore_Get_def split: option.splits)
  show "snd (ProcessStore env name content K chunk_store) = chunk_store"
    by (simp add: ProcessStore_def ChunkStore_Has_def split: option.splits)
  show "snd (ProcessDelete env name version ownership_proof K chunk_store) = chunk_store"
    by (simp add: ProcessDelete_def ChunkStore_Get_def split: option.splits)
  show "snd (snd (ProcessModify env name content version K chunk_store)) = chunk_store"
    by (simp add: ProcessModify_def ChunkStore_Get_def split: option.splits prod.splits)
  show "snd (ProcessHas env name version K chunk_store) = chunk_store"
    by (simp add: ProcessHas_def ChunkStore_Has_def split: option.splits)
qed

section \<open>Properties of the framed connection\<close>


lemma decode_encode:
  "decode_size (ucast (drop_bit 24 w)) (ucast (drop_bit 16 w)) (ucast (drop_bit 8 w)) (ucast w) = (w :: DataSize)"
proof (rule bit_word_eqI)
  fix n :: nat
  assume "n < LENGTH(32)"
  then have n: "n < 32" by simp
  consider "n < 8" | "8 \<le> n" "n < 16" | "16 \<le> n" "n < 24" | "24 \<le> n"
    by linarith
  then show "bit (decode_size (ucast (drop_bit 24 w)) (ucast (drop_bit 16 w))
                (ucast (drop_bit 8 w)) (ucast w)) n = bit w n"
    using n by cases (auto simp: decode_size_def bit_simps)
qed

lemma byte_of_nat:
  "ucast (drop_bit k (of_nat n :: DataSize)) = (of_nat (n div 2 ^ k mod 256) :: byte)" if "k \<le> 24"
proof -
  have "n div 2 ^ k mod 256 = take_bit 8 (drop_bit k n)"
    by (simp add: drop_bit_eq_div take_bit_eq_mod)
  then show ?thesis using that
    by (auto intro!: bit_eqI simp: bit_simps)
qed

lemma big_endian_bytes:
  "[ucast (drop_bit 24 (of_nat n :: DataSize)), ucast (drop_bit 16 (of_nat n :: DataSize)),
      ucast (drop_bit 8 (of_nat n :: DataSize)), ucast (of_nat n :: DataSize) :: byte]
   = [of_nat (n div 2 ^ 24 mod 256), of_nat (n div 2 ^ 16 mod 256),
      of_nat (n div 2 ^ 8 mod 256), of_nat (n mod 256)]"
  using byte_of_nat [of 24 n] byte_of_nat [of 16 n] byte_of_nat [of 8 n] byte_of_nat [of 0 n]
  by simp


lemma ReadDataLoop_delivers:
  assumes chunk: "0 < chunk"
  shows "r \<le> length P \<Longrightarrow> socket_open c \<Longrightarrow> data_size c = length P \<Longrightarrow> data_received c = r
    \<Longrightarrow> take r (data_buffer c) = take r P
    \<Longrightarrow> outstanding c = AsyncReadData (min chunk (length P - r))
    \<Longrightarrow> \<exists>c'. ReadDataLoop chunk (drop r P @ rest) c = Some c' \<and> data_buffer c' = P"
proof (induction "length P - r" arbitrary: r c rule: less_induct)
  case less
  define asked where "asked = min chunk (length P - r)"
  define filled where
    "filled = c\<lparr>data_buffer := take (data_received c) (data_buffer c) @ take asked (drop r P @ rest)\<rparr>"
  define c1 where "c1 = HandleReadData chunk False False asked filled"
  have asked_le: "asked \<le> length P - r" by (simp add: asked_def)
  have buf: "data_buffer filled = take (r + asked) P"
    using less.prems asked_le by (simp add: filled_def take_add)
  have unfold: "ReadDataLoop chunk (drop r P @ rest) c =
      (if outstanding c1 = DispatchPosted then Some c1
       else ReadDataLoop chunk (drop asked (drop r P @ rest)) c1)"
  proof -
    have out: "outstanding c = AsyncReadData asked"
      using less.prems by (simp add: asked_def)
    have enough: "\<not> length (drop r P @ rest) < asked"
      using asked_le by simp
    show ?thesis
      by (subst ReadDataLoop.simps, simp only: out async_op.case enough if_False Let_def)
         (simp add: c1_def filled_def)
  qed
  show ?case
  proof (cases "r + asked = length P")
    case True
    then have "c1 = filled\<lparr>data_received := r + asked, outstanding := DispatchPosted\<rparr>"
      using less.prems by (simp add: c1_def HandleReadData_def CheckTimeout_def filled_def)
    with unfold buf True show ?thesis by simp
  next
    case False
    with asked_le less.prems(1) have lt: "r + asked < length P" by linarith
    then have pos: "0 < asked" using chunk by (simp add: asked_def)
    have c1: "c1 = StartReadData chunk (filled\<lparr>data_received := r + asked\<rparr>)"
      using less.prems False by (simp add: c1_def HandleReadData_def CheckTimeout_def filled_def)
    have not_posted: "outstanding c1 \<noteq> DispatchPosted"
      by (simp add: c1 StartReadData_def Let_def)
    have "\<exists>c'. ReadDataLoop chunk (drop (r + asked) P @ rest) c1 = Some c' \<and> data_buffer c' = P"
    proof (rule less.hyps)
      show "length P - (r + asked) < length P - r" using lt pos by simp
      show "r + asked \<le> length P" using lt by simp
      show "socket_open c1" using less.prems by (simp add: c1 StartReadData_def Let_def filled_def)
      show "data_size c1 = length P"
        using less.prems by (simp add: c1 StartReadData_def Let_def filled_def)
      show "data_received c1 = r + asked"
        by (simp add: c1 StartReadData_def Let_def filled_def)
      show "take (r + asked) (data_buffer c1) = take (r + asked) P"
        using less.prems lt buf
        by (simp add: c1 StartReadData_def Let_def resize_def size_t_minus_def min_def)
      show "outstanding c1 = AsyncReadData (min chunk (length P - (r + asked)))"
        using less.prems lt
        by (simp add: c1 StartReadData_def Let_def size_t_minus_def filled_def)
    qed
    moreover have "drop asked (drop r P @ rest) = drop (r + asked) P @ rest"
      using asked_le less.prems by (simp add: add.commute)
    ultimately show ?thesis using unfold not_posted by simp
  qed
qed

lemma encode_bytes:
  "length sb = 4 \<Longrightarrow>
   fold (\<lambda>i sb. sb[i := ucast (drop_bit (8 * (3 - i)) (w :: DataSize))]) [0..<4] sb
     = [ucast (drop_bit 24 w), ucast (drop_bit 16 w), ucast (drop_bit 8 w), ucast w :: byte]"
proof -
  assume "length sb = 4"
  then obtain a b c d where "sb = [a, b, c, d]"
    by (auto simp: length_Suc_conv numeral_eq_Suc)
  moreover have "[0..<4] = [0, 1, 2, 3]" by (simp add: upt_rec)
  ultimately show ?thesis by (simp add: numeral_eq_Suc)
qed

lemma EncodeData_frame:
  assumes "length (size_buffer c) = 4"
  shows "EncodeData P c = Some (c\<lparr>size_buffer := big_endian_length P, data_buffer := P\<rparr>)"
  using assms
  by (simp add: EncodeData_def encode_bytes big_endian_bytes big_endian_length_def)

lemma decode_big_endian_length:
  assumes "length P < 2 ^ 32"
  shows "unat (decode_size (big_endian_length P ! 0) (big_endian_length P ! 1)
                 (big_endian_length P ! 2) (big_endian_length P ! 3)) = length P"
proof -
  have "big_endian_length P =
      [ucast (drop_bit 24 (of_nat (length P) :: DataSize)), ucast (drop_bit 16 (of_nat (length P) :: DataSize)),
       ucast (drop_bit 8 (of_nat (length P) :: DataSize)), ucast (of_nat (length P) :: DataSize)]"
    by (simp add: big_endian_length_def big_endian_bytes)
  then have "decode_size (big_endian_length P ! 0) (big_endian_length P ! 1)
                 (big_endian_length P ! 2) (big_endian_length P ! 3) = (of_nat (length P) :: DataSize)"
    by (simp add: decode_encode)
  then show ?thesis using assms by (simp add: unsigned_of_nat take_bit_nat_eq_self)
qed

lemma HandleReadSize_decodes:
  assumes "socket_open c" and "length P < 2 ^ 32"
  shows "HandleReadSize chunk False False (c\<lparr>size_buffer := big_endian_length P\<rparr>)
       = Some (StartReadData chunk
                 (c\<lparr>size_buffer := big_endian_length P, data_size := length P, data_received := 0\<rparr>))"
proof -
  have len: "length (big_endian_length P) = 4" by (simp add: big_endian_length_def)
  show ?thesis
    using assms(1) decode_big_endian_length [OF assms(2)] len
    by (simp add: HandleReadSize_def CheckTimeout_def Let_def)
qed

lemma ReceiveFrame_delivers:
  assumes "length P < 2 ^ 32" and "0 < kMaxTransportChunkSize"
    and "length (size_buffer receiver) = 4" and "socket_open receiver"
  shows "ReceiveFrame kMaxTransportChunkSize (big_endian_length P @ P) receiver = Some P"
proof -
  have len: "length (big_endian_length P) = 4" by (simp add: big_endian_length_def)
  define c0 where "c0 = StartReadData kMaxTransportChunkSize
                 ((StartReadSize receiver)\<lparr>size_buffer := big_endian_length P, data_size := length P,
                            data_received := 0\<rparr>)"
  have open_c: "socket_open (StartReadSize receiver)"
    using assms(4) by (simp add: StartReadSize_def)
  have rs: "HandleReadSize kMaxTransportChunkSize False False
              ((StartReadSize receiver)\<lparr>size_buffer := big_endian_length P\<rparr>) = Some c0"
    unfolding c0_def by (rule HandleReadSize_decodes [OF open_c assms(1)])
  have "\<exists>c'. ReadDataLoop kMaxTransportChunkSize (drop 0 P @ []) c0 = Some c' \<and> data_buffer c' = P"
    by (rule ReadDataLoop_delivers [OF assms(2)])
       (simp_all add: assms(4) c0_def StartReadData_def StartReadSize_def Let_def size_t_minus_def)
  then obtain c' where c': "ReadDataLoop kMaxTransportChunkSize P c0 = Some c'" "data_buffer c' = P"
    by auto
  show ?thesis
    using assms(3) len rs c' by (simp add: ReceiveFrame_def Let_def)
qed

text \<open>
  C5: for every payload \<open>P\<close> no longer than the maximum message size, \<open>EncodeData\<close>
  fills the size buffer with the length of \<open>P\<close> as four bytes, most significant first, and
  the data buffer with \<open>P\<close>, and \<open>StartWrite\<close> writes the two in this order;
  \<open>HandleReadSize\<close> decodes exactly the length of \<open>P\<close> from that size prefix; and a
  receiving connection fed with the frame (reading in chunks of a positive size) posts
  exactly \<open>P\<close> for dispatch.
\<close>

theorem frame_round_trip:
  assumes "length P \<le> unat (kMaxTransportMessageSize :: DataSize)"
    and "length (size_buffer sender) = 4"
    and "length (size_buffer receiver) = 4" and "socket_open receiver"
  shows "EncodeData P sender
           = Some (sender\<lparr>size_buffer := big_endian_length P, data_buffer := P\<rparr>)
       \<and> map_option (outstanding \<circ> StartWrite) (EncodeData P sender)
           = Some (AsyncWrite (big_endian_length P @ P))
       \<and> map_option data_size
           (HandleReadSize kMaxTransportChunkSize False False
              (receiver\<lparr>size_buffer := big_endian_length P\<rparr>)) = Some (length P)
       \<and> (0 < kMaxTransportChunkSize
          \<longrightarrow> ReceiveFrame kMaxTransportChunkSize (big_endian_length P @ P) receiver = Some P)"
proof -
  have bound: "length P < 2 ^ 32"
    using assms(1) unsigned_less [of kMaxTransportMessageSize, where ?'a = nat] by simp
  have enc: "EncodeData P sender
           = Some (sender\<lparr>size_buffer := big_endian_length P, data_buffer := P\<rparr>)"
    by (rule EncodeData_frame [OF assms(2)])
  have wr: "map_option (outstanding \<circ> StartWrite) (EncodeData P sender)
           = Some (AsyncWrite (big_endian_length P @ P))"
    by (simp add: enc StartWrite_def)
  have rs: "map_option data_size
           (HandleReadSize kMaxTransportChunkSize False False
              (receiver\<lparr>size_buffer := big_endian_length P\<rparr>)) = Some (length P)"
    by (simp add: HandleReadSize_decodes [OF assms(4) bound] StartReadData_def Let_def)
  have rf: "0 < kMaxTransportChunkSize
          \<longrightarrow> ReceiveFrame kMaxTransportChunkSize (big_endian_length P @ P) receiver = Some P"
    using ReceiveFrame_delivers [OF bound _ assms(3,4)] by blast
  show ?thesis using enc wr rs rf by blast
qed

theorem frame_round_trip_witness:
  "length [1, 2, 3 :: byte] \<le> unat (64 :: DataSize)
   \<and> length (size_buffer new_connection) = 4 \<and> socket_open new_connection
   \<and> EncodeData [1, 2, 3] new_connection
       = Some (new_connection\<lparr>size_buffer := [0, 0, 0, 3], data_buffer := [1, 2, 3]\<rparr>)
   \<and> map_option data_size
       (HandleReadSize 2 False False (new_connection\<lparr>size_buffer := [0, 0, 0, 3]\<rparr>)) = Some 3
   \<and> (0 :: nat) < 2
   \<and> ReceiveFrame 2 [0, 0, 0, 3, 1, 2, 3] new_connection = Some [1, 2, 3]"
proof -
  have small: "length [1, 2, 3 :: byte] \<le> unat (64 :: DataSize)" by simp
  have four: "length (size_buffer new_connection) = 4" by (simp add: new_connection_def)
  have opened: "socket_open new_connection" by (simp add: new_connection_def)
  have prefix: "big_endian_length [1, 2, 3] = [0, 0, 0, 3]"
    by (simp add: big_endian_length_def)
  have three: "length [1, 2, 3 :: byte] = 3" by simp
  show ?thesis
    using frame_round_trip [OF small four four opened, of 2] small four opened
    unfolding prefix three by simp
qed

text \<open>
  The size that \<open>HandleReadSize\<close> decodes is not compared with anything: whatever the four
  bytes say, an open connection goes on to read the payload. The sending side does
  compare: \<open>TcpTransport::Send\<close> refuses a message above the maximum, and
  \<open>DispatchMessage\<close> closes the connection rather than write such a response.
\<close>

lemma HandleReadSize_reads_any_size:
  assumes "socket_open c" and "size_buffer c = [b0, b1, b2, b3]"
  shows "HandleReadSize kMaxTransportChunkSize False False c =
           Some (StartReadData kMaxTransportChunkSize
                   (c\<lparr>data_size := unat (decode_size b0 b1 b2 b3), data_received := 0\<rparr>))"
  using assms by (simp add: HandleReadSize_def CheckTimeout_def Let_def)

lemma TcpTransport_Send_refuses_oversized:
  assumes "unat kMaxTransportMessageSize < length payload" and "length payload < 2 ^ 32"
  shows "TcpTransport_Send kMaxTransportMessageSize payload = Inl kMessageSizeTooLarge"
proof -
  have "unat (of_nat (length payload) :: DataSize) = length payload"
    using assms(2) by (simp add: unsigned_of_nat take_bit_nat_eq_self)
  with assms(1) have "kMaxTransportMessageSize < (of_nat (length payload) :: DataSize)"
    by (simp add: word_less_nat_alt)
  then show ?thesis by (simp add: TcpTransport_Send_def Let_def)
qed

text \<open>
  C6, on the code: a connection receives the size prefix \<open>7F FF FF FF\<close>, the length
  2147483647. \<open>HandleReadSize\<close> does not close it: the socket stays open, no error is
  signalled, and a read of the first 65536 payload bytes is started.
\<close>

theorem HandleReadSize_oversized_frame:
  "unat (decode_size 127 255 255 255) = 2147483647
   \<and> HandleReadSize 65536 False False (new_connection\<lparr>size_buffer := [127, 255, 255, 255]\<rparr>)
     = Some (new_connection\<lparr>size_buffer := [127, 255, 255, 255],
                            data_buffer := replicate 65536 0,
                            data_size := 2147483647, data_received := 0,
                            outstanding := AsyncReadData 65536\<rparr>)
   \<and> socket_open new_connection \<and> errors_signalled new_connection = []"
  by (simp add: HandleReadSize_def CheckTimeout_def new_connection_def StartReadData_def
        decode_size_def size_t_minus_def resize_def Let_def)

section \<open>Properties of the vault manager\<close>

subsection \<open>Stopping a vault\<close>

text \<open>
  A stop request that parses never gets through: the handler holds \<open>vault_infos_mutex_\<close>
  when it calls \<open>StopVault\<close>, which locks it first of all. Nothing has changed by then, and
  \<open>HandleReceivedMessage\<close> does not reach its \<open>Send\<close>. Called on its own,
  \<open>StopVault\<close> stops the process of a vault it finds and clears the flag, and then
  blocks in \<open>WriteConfigFile\<close>.
\<close>

lemma HandleStopVaultRequest_blocks:
  assumes "ParseStopVaultRequest env request = Some r"
  shows "HandleStopVaultRequest env w request vm = Blocks vm"
  using assms by (simp add: HandleStopVaultRequest_def StopVault_def Let_def)

lemma stop_request_is_not_answered:
  assumes "UnwrapMessage env message = Some (kStopVaultRequest, payload)"
    and "ParseStopVaultRequest env payload = Some r"
  shows "HandleReceivedMessage env w message peer_port vm = Blocks vm"
  using assms by (simp add: HandleReceivedMessage_def HandleStopVaultRequest_blocks)

lemma StopVault_blocks_in_WriteConfigFile:
  assumes "find_if (\<lambda>vault_info. identity (keys vault_info) = identity_arg) (vault_infos vm)
             = Some itr"
  shows "StopVault env w False identity_arg vm =
           Blocks ((add_action (StopProcess (process_index (vault_infos vm ! itr))) vm)
                     \<lparr>vault_infos := (vault_infos vm)[itr := (vault_infos vm ! itr)
                                                              \<lparr>requested_to_run := False\<rparr>]\<rparr>)"
  using assms by (simp add: StopVault_def WriteConfigFile_def Let_def add_action_def)

lemma example_find:
  "find_if (\<lambda>vault_info. identity (keys vault_info) = [5]) (vault_infos example_manager) = Some 0"
  by (simp add: example_manager_def example_vault_def)

lemma example_parse_stop:
  "ParseStopVaultRequest example_vm_env [5, 9, s]
     = Some \<lparr>stop_identity = [5], stop_data = [9], stop_signature = [s]\<rparr>"
  by (simp add: example_vm_env_def)

lemma example_unwrap_stop:
  "UnwrapMessage example_vm_env (6 # payload) = Some (kStopVaultRequest, payload)"
  by (simp add: example_vm_env_def example_tag_def)

text \<open>
  C7, on the code: the manager runs a vault of identity 5 and receives a stop request for it
  whose signature validates against the vault's public key. The handler blocks where
  \<open>StopVault\<close> locks the mutex that the handler holds: no response is sent, the process is
  not stopped, \<open>requested_to_run\<close> keeps its value and the config file is not written. A
  request with a signature that does not validate ends the same way, without the
  \<open>result = false\<close> response.
\<close>

theorem HandleStopVaultRequest_valid_request_blocks:
  "find_if (\<lambda>vault_info. identity (keys vault_info) = [5]) (vault_infos example_manager) = Some 0
   \<and> Validate example_vm_env [9] [5] (public_key (keys (vault_infos example_manager ! 0)))
   \<and> HandleStopVaultRequest example_vm_env (example_outcomes True) [5, 9, 5] example_manager
       = Blocks example_manager
   \<and> HandleReceivedMessage example_vm_env (example_outcomes True) [6, 5, 9, 5] 4000
        example_manager = Blocks example_manager
   \<and> \<not> Validate example_vm_env [9] [4] (public_key (keys (vault_infos example_manager ! 0)))
   \<and> HandleReceivedMessage example_vm_env (example_outcomes True) [6, 5, 9, 4] 4000
        example_manager = Blocks example_manager
   \<and> map requested_to_run (vault_infos example_manager) = [True]
   \<and> actions example_manager = []"
proof -
  have valid: "Validate example_vm_env [9] [5] (public_key (keys (vault_infos example_manager ! 0)))"
    by (simp add: example_vm_env_def example_manager_def example_vault_def)
  have invalid: "\<not> Validate example_vm_env [9] [4] (public_key (keys (vault_infos example_manager ! 0)))"
    by (simp add: example_vm_env_def example_manager_def example_vault_def)
  have handler: "HandleStopVaultRequest example_vm_env (example_outcomes True) [5, 9, 5]
                   example_manager = Blocks example_manager"
    by (rule HandleStopVaultRequest_blocks [OF example_parse_stop])
  have received: "HandleReceivedMessage example_vm_env (example_outcomes True) [6, 5, 9, s] 4000
                    example_manager = Blocks example_manager" for s
    by (rule stop_request_is_not_answered [OF example_unwrap_stop example_parse_stop])
  have unchanged: "map requested_to_run (vault_infos example_manager) = [True]"
    "actions example_manager = []"
    by (simp_all add: example_manager_def example_vault_def)
  show ?thesis
    using example_find valid invalid handler received [of 5] received [of 4] unchanged by simp
qed

subsection \<open>Messages that are dropped\<close>

text \<open>
  A message that does not unwrap, or whose type is none of the five requests, returns before
  anything is sent. A request whose payload does not parse leaves \<open>response\<close> empty in its
  handler, and \<open>HandleReceivedMessage\<close> goes on to send that empty response. The transport
  takes the empty string for a message like any other: it writes a frame of length zero.
\<close>

lemma dropped_message_sends_nothing:
  assumes "UnwrapMessage env message = None
       \<or> (\<exists>payload. UnwrapMessage env message = Some (kStartVaultResponse, payload))
       \<or> (\<exists>payload. UnwrapMessage env message = Some (kVaultIdentityResponse, payload))
       \<or> (\<exists>payload. UnwrapMessage env message = Some (kVaultShutdownResponse, payload))
       \<or> (\<exists>payload. UnwrapMessage env message = Some (kUpdateIntervalResponse, payload))
       \<or> (\<exists>n payload. UnwrapMessage env message = Some (UnlistedType n, payload))"
  shows "HandleReceivedMessage env w message peer_port vm = Returns vm"
  using assms by (auto simp: HandleReceivedMessage_def)

lemma unparsed_request_sends_empty_response:
  assumes "UnwrapMessage env message = Some (type, payload)"
    and "type = kPing \<and> \<not> ParsePing env payload
       \<or> type = kStartVaultRequest \<and> ParseStartVaultRequest env payload = None
       \<or> type = kVaultIdentityRequest \<and> ParseVaultIdentityRequest env payload = None
       \<or> type = kStopVaultRequest \<and> ParseStopVaultRequest env payload = None
       \<or> type = kUpdateIntervalRequest \<and> ParseUpdateIntervalRequest env payload = None"
  shows "HandleReceivedMessage env w message peer_port vm
           = Returns (add_action (Send [] peer_port) vm)"
  using assms
  by (auto simp: HandleReceivedMessage_def HandlePing_def HandleStartVaultRequest_def
        HandleVaultIdentityRequest_def HandleStopVaultRequest_def
        HandleUpdateIntervalRequest_def)

lemma empty_send_writes_frame:
  "bytes_written (TcpTransport_Send kMaxTransportMessageSize []) = Some [0, 0, 0, 0]"
  "bytes_written (LocalTcpTransport_Send kMaxTransportMessageSize [] port) = Some [0, 0, 0, 0]"
  by (simp_all add: bytes_written_def LocalTcpTransport_Send_def TcpTransport_Send_def
        StartSending_def StartConnect_def EncodeData_def HandleConnect_def StartWrite_def
        new_connection_def upt_rec numeral_eq_Suc)

lemma example_unwrap_ping: "UnwrapMessage example_vm_env [1, 2] = Some (kPing, [2])"
  by (simp add: example_vm_env_def example_tag_def)

lemma example_bad_ping: "\<not> ParsePing example_vm_env [2]"
  by (simp add: example_vm_env_def)

text \<open>
  C8, on the code: a ping whose payload does not parse. The handler returns without a
  response, and \<open>HandleReceivedMessage\<close> calls \<open>Send\<close> with the empty string for the
  peer's port; the transport connects to the peer and writes the four bytes of a frame of
  length zero.
\<close>

theorem HandleReceivedMessage_unparsed_ping_sends:
  "UnwrapMessage example_vm_env [1, 2] = Some (kPing, [2])
   \<and> \<not> ParsePing example_vm_env [2]
   \<and> HandleReceivedMessage example_vm_env (example_outcomes True) [1, 2] 4000 example_manager
       = Returns (example_manager\<lparr>actions := [Send [] 4000]\<rparr>)
   \<and> bytes_written (LocalTcpTransport_Send 64 [] 4000) = Some [0, 0, 0, 0]"
proof -
  have "HandleReceivedMessage example_vm_env (example_outcomes True) [1, 2] 4000 example_manager
      = Returns (add_action (Send [] 4000) example_manager)"
    using example_unwrap_ping example_bad_ping
    by (intro unparsed_request_sends_empty_response) auto
  moreover have "add_action (Send [] 4000) example_manager
      = example_manager\<lparr>actions := [Send [] 4000]\<rparr>"
    by (simp add: add_action_def example_manager_def)
  ultimately show ?thesis
    using example_unwrap_ping example_bad_ping empty_send_writes_frame(2) [of 64 4000]
    by simp
qed

subsection \<open>Starting a vault\<close>

lemma HandleStartVaultRequest_run:
  assumes "ParseStartVaultRequest env request = Some r"
    and "HandleBootstrapFile w" and "SetExecutablePath_succeeds w"
    and "AddProcess_returns w \<noteq> kInvalidIndex env" and "WriteFile_succeeds w"
  shows "HandleStartVaultRequest env w request vm =
           Returns
             (WrapMessage env kStartVaultResponse
                (SerializeStartVaultResponse env (vault_requested_in_time w)),
              vm\<lparr>vault_infos := vault_infos vm @ [started_vault env w r],
                 config_file :=
                   Some \<lparr>config_update_interval = update_interval vm,
                         config_vault_info =
                           map (ToProtobuf env) (vault_infos vm @ [started_vault env w r])\<rparr>,
                 actions := actions vm @
                   [AddProcess (chunkstore_path (started_vault env w r)) 0 (bootstrap_endpoint r),
                    StartProcess (AddProcess_returns w),
                    WriteFile \<lparr>config_update_interval = update_interval vm,
                               config_vault_info =
                                 map (ToProtobuf env) (vault_infos vm @ [started_vault env w r])\<rparr>,
                    WaitForVaultRequested (AddProcess_returns w) 3]\<rparr>)"
  using assms
  by (simp add: HandleStartVaultRequest_def AddVaultToProcesses_def WriteConfigFile_def
        add_action_def started_vault_def Let_def new_VaultInfo_def)

lemma example_parse_start:
  "ParseStartVaultRequest example_vm_env [6]
     = Some \<lparr>start_account_name = [6], start_keys = [6], bootstrap_endpoint = []\<rparr>"
  by (simp add: example_vm_env_def)

lemma example_outcomes_ok:
  "HandleBootstrapFile (example_outcomes in_time)"
  "SetExecutablePath_succeeds (example_outcomes in_time)"
  "AddProcess_returns (example_outcomes in_time) \<noteq> kInvalidIndex example_vm_env"
  "WriteFile_succeeds (example_outcomes in_time)"
  "vault_requested_in_time (example_outcomes in_time) = in_time"
  "AddProcess_returns (example_outcomes in_time) = 2"
  "kInvalidIndex example_vm_env = 0"
  by (simp_all add: example_outcomes_def HandleBootstrapFile_def example_vm_env_def)

lemma example_started_vault:
  "started_vault example_vm_env (example_outcomes in_time)
     \<lparr>start_account_name = [6], start_keys = [6], bootstrap_endpoint = []\<rparr>
   = \<lparr>process_index = 2, account_name = [6],
      keys = \<lparr>identity = [6], public_key = [6], private_key = [6]\<rparr>,
      chunkstore_path = [6], chunkstore_capacity = 0, client_port = 0, vault_port = 0,
      requested_to_run = False, vault_requested = False\<rparr>"
  by (simp add: started_vault_def new_VaultInfo_def example_vm_env_def example_outcomes_def)

lemma example_ToProtobuf:
  "ToProtobuf example_vm_env v =
     \<lparr>pb_account_name = account_name v, pb_keys = identity (keys v),
      pb_chunkstore_path = chunkstore_path v, pb_chunkstore_capacity = chunkstore_capacity v,
      pb_requested_to_run = requested_to_run v\<rparr>"
  by (simp add: ToProtobuf_def example_vm_env_def)

lemma example_responses:
  "WrapMessage example_vm_env kStartVaultResponse
     (SerializeStartVaultResponse example_vm_env result) = [3, if result then 1 else 0]"
  by (simp add: example_vm_env_def)

text \<open>
  C9, as stated, at a vault that does not announce itself in time: the client receives
  \<open>result = false\<close>, and the config file, which held the record of vault 5 alone, has
  been written with the new vault's record (account 6) all the same, before the wait began.
\<close>

theorem HandleStartVaultRequest_timeout_counterexample:
  "vault_requested_in_time (example_outcomes False) = False
   \<and> map pb_account_name (config_vault_info (the (config_file example_manager))) = [[5]]
   \<and> HandleStartVaultRequest example_vm_env (example_outcomes False) [6] example_manager
       = Returns
           (WrapMessage example_vm_env kStartVaultResponse
              (SerializeStartVaultResponse example_vm_env False),
            example_manager
              \<lparr>vault_infos := [example_vault,
                               \<lparr>process_index = 2, account_name = [6],
                                keys = \<lparr>identity = [6], public_key = [6], private_key = [6]\<rparr>,
                                chunkstore_path = [6], chunkstore_capacity = 0, client_port = 0,
                                vault_port = 0, requested_to_run = False,
                                vault_requested = False\<rparr>],
               config_file :=
                 Some \<lparr>config_update_interval = 86400,
                       config_vault_info =
                         [\<lparr>pb_account_name = [5], pb_keys = [5], pb_chunkstore_path = [5],
                           pb_chunkstore_capacity = 0, pb_requested_to_run = True\<rparr>,
                          \<lparr>pb_account_name = [6], pb_keys = [6], pb_chunkstore_path = [6],
                           pb_chunkstore_capacity = 0, pb_requested_to_run = False\<rparr>]\<rparr>,
               actions :=
                 [AddProcess [6] 0 [], StartProcess 2,
                  WriteFile \<lparr>config_update_interval = 86400,
                             config_vault_info =
                               [\<lparr>pb_account_name = [5], pb_keys = [5], pb_chunkstore_path = [5],
                                 pb_chunkstore_capacity = 0, pb_requested_to_run = True\<rparr>,
                                \<lparr>pb_account_name = [6], pb_keys = [6], pb_chunkstore_path = [6],
                                 pb_chunkstore_capacity = 0, pb_requested_to_run = False\<rparr>]\<rparr>,
                  WaitForVaultRequested 2 3]\<rparr>)"
  using HandleStartVaultRequest_run
          [OF example_parse_start example_outcomes_ok(1-4), of False example_manager]
  by (simp add: example_outcomes_ok example_started_vault example_ToProtobuf
        example_manager_def example_vault_def)

text \<open>
  C9, amended: in the start-vault flow, once the child is spawned the handler adds the new
  \<open>VaultInfo\<close> and persists the config file with it at once, before it waits; it then
  waits up to 3 seconds for \<open>vault_requested\<close>, and the client receives
  \<open>result = false\<close> if the wait times out and \<open>result = true\<close> otherwise. The config
  is persisted whether or not the vault announces itself within the 3 seconds.
\<close>

theorem HandleStartVaultRequest_persists_before_wait:
  assumes "ParseStartVaultRequest env request = Some r"
    and "HandleBootstrapFile w" and "SetExecutablePath_succeeds w"
    and "AddProcess_returns w \<noteq> kInvalidIndex env" and "WriteFile_succeeds w"
  shows "HandleStartVaultRequest env w request vm =
           Returns
             (WrapMessage env kStartVaultResponse
                (SerializeStartVaultResponse env (vault_requested_in_time w)),
              vm\<lparr>vault_infos := vault_infos vm @ [started_vault env w r],
                 config_file :=
                   Some \<lparr>config_update_interval = update_interval vm,
                         config_vault_info =
                           map (ToProtobuf env) (vault_infos vm @ [started_vault env w r])\<rparr>,
                 actions := actions vm @
                   [AddProcess (chunkstore_path (started_vault env w r)) 0 (bootstrap_endpoint r),
                    StartProcess (AddProcess_returns w),
                    WriteFile \<lparr>config_update_interval = update_interval vm,
                               config_vault_info =
                                 map (ToProtobuf env) (vault_infos vm @ [started_vault env w r])\<rparr>,
                    WaitForVaultRequested (AddProcess_returns w) 3]\<rparr>)"
proof -
  have bootstrapped: "\<not> (\<not> HandleBootstrapFile w)" using assms(2) by simp
  have added: "AddVaultToProcesses env w (chunkstore_path (started_vault env w r)) 0
                 (bootstrap_endpoint r) vm
               = (AddProcess_returns w,
                  add_action (AddProcess (chunkstore_path (started_vault env w r)) 0
                                (bootstrap_endpoint r)) vm)"
    using assms(3) by (simp add: AddVaultToProcesses_def)
  show ?thesis
    using assms(1,4,5) bootstrapped added
    by (simp add: HandleStartVaultRequest_def WriteConfigFile_def add_action_def
          started_vault_def Let_def new_VaultInfo_def)
qed

theorem HandleStartVaultRequest_persists_before_wait_witness:
  "ParseStartVaultRequest example_vm_env [6]
     = Some \<lparr>start_account_name = [6], start_keys = [6], bootstrap_endpoint = []\<rparr>
   \<and> HandleBootstrapFile (example_outcomes True)
   \<and> SetExecutablePath_succeeds (example_outcomes True)
   \<and> AddProcess_returns (example_outcomes True) \<noteq> kInvalidIndex example_vm_env
   \<and> WriteFile_succeeds (example_outcomes True)
   \<and> HandleStartVaultRequest example_vm_env (example_outcomes True) [6] example_manager
       = Returns
           ([3, 1],
            example_manager
              \<lparr>vault_infos := [example_vault,
                               \<lparr>process_index = 2, account_name = [6],
                                keys = \<lparr>identity = [6], public_key = [6], private_key = [6]\<rparr>,
                                chunkstore_path = [6], chunkstore_capacity = 0, client_port = 0,
                                vault_port = 0, requested_to_run = False,
                                vault_requested = False\<rparr>],
               config_file :=
                 Some \<lparr>config_update_interval = 86400,
                       config_vault_info =
                         [\<lparr>pb_account_name = [5], pb_keys = [5], pb_chunkstore_path = [5],
                           pb_chunkstore_capacity = 0, pb_requested_to_run = True\<rparr>,
                          \<lparr>pb_account_name = [6], pb_keys = [6], pb_chunkstore_path = [6],
                           pb_chunkstore_capacity = 0, pb_requested_to_run = False\<rparr>]\<rparr>,
               actions :=
                 [AddProcess [6] 0 [], StartProcess 2,
                  WriteFile \<lparr>config_update_interval = 86400,
                             config_vault_info =
                               [\<lparr>pb_account_name = [5], pb_keys = [5], pb_chunkstore_path = [5],
                                 pb_chunkstore_capacity = 0, pb_requested_to_run = True\<rparr>,
                                \<lparr>pb_account_name = [6], pb_keys = [6], pb_chunkstore_path = [6],
                                 pb_chunkstore_capacity = 0, pb_requested_to_run = False\<rparr>]\<rparr>,
                  WaitForVaultRequested 2 3]\<rparr>)"
  using HandleStartVaultRequest_persists_before_wait
          [OF example_parse_start example_outcomes_ok(1-4), of True example_manager]
  by (simp add: example_parse_start example_outcomes_ok example_started_vault example_ToProtobuf
        example_responses example_manager_def example_vault_def)

end
